theory Spec2Isabelle
  imports Main "HOL-Library.Word" "HOL-Library.Stream"
begin

section \<open>The OpenRGB network client (src/src/Client.cpp)\<close>

text \<open>
  A shallow embedding of \<^verbatim>\<open>orgb::Client\<close>. The client is a record; every member function
  takes the client and returns its result together with the client it leaves behind.
  The TCP socket (\<^verbatim>\<open>own::TcpSocket\<close> of CppUtils-Network, an external library) is the
  environment: it is a record that holds, besides its visible state, one script per
  operation with the outcomes the operating system and the server will produce, and a
  trace of the operations performed on it. Scripts are streams, so the server may send
  for ever, and the two loops that wait for the server are partial functions whose value
  \<open>None\<close> stands for a call that never returns.
\<close>

subsection \<open>Status enumerations\<close>

text \<open>
  The enumerators of the four enumerations share names in the source
  (\<^verbatim>\<open>SocketError::Success\<close>, \<^verbatim>\<open>RequestStatus::Success\<close>, ...); here each carries the
  initials of its enumeration. The lists of \<open>ConnectStatus\<close>, \<open>RequestStatus\<close> and
  \<open>UpdateStatus\<close> are those of the three \<^verbatim>\<open>enumString\<close> tables, in their order.
\<close>

datatype SocketError =
    SE_Success | SE_AlreadyConnected | SE_NetworkingInitFailed | SE_HostNotResolved
  | SE_ConnectFailed | SE_NotConnected | SE_ConnectionClosed | SE_Timeout | SE_WouldBlock
  | SE_Other

datatype ConnectStatus =
    CS_Success | CS_NetworkingInitFailed | CS_AlreadyConnected | CS_HostNotResolved
  | CS_ConnectFailed | CS_RequestVersionFailed | CS_VersionNotSupported | CS_SendNameFailed
  | CS_OtherSystemError | CS_UnexpectedError

datatype RequestStatus =
    RS_Success | RS_NotConnected | RS_SendRequestFailed | RS_ConnectionClosed | RS_NoReply
  | RS_ReceiveError | RS_InvalidReply | RS_UnexpectedError

datatype UpdateStatus =
    US_UpToDate | US_OutOfDate | US_ConnectionClosed | US_UnexpectedMessage
  | US_CantRestoreSocket | US_OtherSystemError | US_UnexpectedError

subsection \<open>Protocol messages\<close>

type_synonym byte = "8 word"
type_synonym uint32 = "32 word"

text \<open>
  Modelled from the spec: \<^verbatim>\<open>ProtocolMessages.hpp\<close> is not among the sources. The message
  types are those of the spec's message table.
\<close>

datatype MessageType =
    REQUEST_PROTOCOL_VERSION | REPLY_PROTOCOL_VERSION | SET_CLIENT_NAME
  | REQUEST_CONTROLLER_COUNT | REPLY_CONTROLLER_COUNT
  | REQUEST_CONTROLLER_DATA | REPLY_CONTROLLER_DATA
  | SET_CUSTOM_MODE | UPDATE_MODE | SAVE_MODE
  | UPDATE_LEDS | UPDATE_ZONE_LEDS | UPDATE_SINGLE_LED | RESIZE_ZONE
  | REQUEST_PROFILE_LIST | REPLY_PROFILE_LIST
  | REQUEST_SAVE_PROFILE | REQUEST_LOAD_PROFILE | REQUEST_DELETE_PROFILE
  | DEVICE_LIST_UPDATED

record Header =
  device_idx :: uint32
  message_type :: MessageType
  message_size :: uint32

text \<open>Modelled from the spec: \<^verbatim>\<open>Header::size()\<close>, the fixed 16 bytes of a header.\<close>

definition Header_size :: nat where
  "Header_size = 16"

text \<open>
  The data of \<^verbatim>\<open>DeviceInfo.hpp\<close> and \<^verbatim>\<open>Color.hpp\<close> (not among the sources), with the
  fields the client reads. The field names carry the name of their structure, since
  \<^verbatim>\<open>idx\<close> and \<^verbatim>\<open>parentIdx\<close> occur in several of them.
\<close>

record Color =
  color_r :: byte
  color_g :: byte
  color_b :: byte

record LED =
  led_parentIdx :: uint32
  led_idx :: uint32

record Zone =
  zone_parentIdx :: uint32
  zone_idx :: uint32
  zone_leds_count :: uint32

record Mode =
  mode_idx :: uint32
  mode_name :: string

record Device =
  dev_idx :: uint32
  dev_name :: string
  dev_leds :: "LED list"

text \<open>
  The message classes that \<^verbatim>\<open>sendMessage\<close> is instantiated with, each with the
  arguments of its constructor, and their \<^verbatim>\<open>thisType\<close>.
\<close>

datatype Message =
    RequestProtocolVersion uint32
  | SetClientName string
  | RequestControllerCount
  | RequestControllerData uint32 uint32
  | SetCustomMode uint32
  | UpdateMode uint32 uint32 Mode uint32
  | SaveMode uint32 uint32 Mode uint32
  | UpdateLEDs uint32 "Color list"
  | UpdateZoneLEDs uint32 uint32 "Color list"
  | ResizeZone uint32 uint32 uint32
  | UpdateSingleLED uint32 uint32 Color
  | RequestProfileList
  | RequestSaveProfile string
  | RequestLoadProfile string

fun thisType :: "Message \<Rightarrow> MessageType" where
  "thisType (RequestProtocolVersion _) = REQUEST_PROTOCOL_VERSION"
| "thisType (SetClientName _) = SET_CLIENT_NAME"
| "thisType RequestControllerCount = REQUEST_CONTROLLER_COUNT"
| "thisType (RequestControllerData _ _) = REQUEST_CONTROLLER_DATA"
| "thisType (SetCustomMode _) = SET_CUSTOM_MODE"
| "thisType (UpdateMode _ _ _ _) = UPDATE_MODE"
| "thisType (SaveMode _ _ _ _) = SAVE_MODE"
| "thisType (UpdateLEDs _ _) = UPDATE_LEDS"
| "thisType (UpdateZoneLEDs _ _ _) = UPDATE_ZONE_LEDS"
| "thisType (ResizeZone _ _ _) = RESIZE_ZONE"
| "thisType (UpdateSingleLED _ _ _) = UPDATE_SINGLE_LED"
| "thisType RequestProfileList = REQUEST_PROFILE_LIST"
| "thisType (RequestSaveProfile _) = REQUEST_SAVE_PROFILE"
| "thisType (RequestLoadProfile _) = REQUEST_LOAD_PROFILE"

text \<open>
  The codec of \<^verbatim>\<open>ProtocolMessages.hpp\<close> is a parameter of the client: the compile-time
  constant \<^verbatim>\<open>implementedProtocolVersion\<close>, \<^verbatim>\<open>Header::deserialize\<close>, and
  \<^verbatim>\<open>deserializeBody\<close> of each reply class (given the negotiated version and the bytes
  of the body, the decoded content or \<open>None\<close> where the source returns false).
\<close>

record Protocol =
  implementedProtocolVersion :: uint32
  Header_deserialize :: "byte list \<Rightarrow> Header option"
  ProtocolVersion_deserializeBody :: "uint32 \<Rightarrow> byte list \<Rightarrow> uint32 option"
  ControllerCount_deserializeBody :: "uint32 \<Rightarrow> byte list \<Rightarrow> uint32 option"
  ControllerData_deserializeBody :: "uint32 \<Rightarrow> byte list \<Rightarrow> Device option"
  ProfileList_deserializeBody :: "uint32 \<Rightarrow> byte list \<Rightarrow> string list option"

text \<open>
  A reply class as \<^verbatim>\<open>awaitMessage\<close> uses its template argument: its \<^verbatim>\<open>thisType\<close> and
  its \<^verbatim>\<open>deserializeBody\<close>.
\<close>

record 'm ReplyClass =
  replyType :: MessageType
  deserializeBody :: "uint32 \<Rightarrow> byte list \<Rightarrow> 'm option"

definition ReplyProtocolVersion :: "Protocol \<Rightarrow> uint32 ReplyClass" where
  "ReplyProtocolVersion P =
     \<lparr>replyType = REPLY_PROTOCOL_VERSION, deserializeBody = ProtocolVersion_deserializeBody P\<rparr>"

definition ReplyControllerCount :: "Protocol \<Rightarrow> uint32 ReplyClass" where
  "ReplyControllerCount P =
     \<lparr>replyType = REPLY_CONTROLLER_COUNT, deserializeBody = ControllerCount_deserializeBody P\<rparr>"

definition ReplyControllerData :: "Protocol \<Rightarrow> Device ReplyClass" where
  "ReplyControllerData P =
     \<lparr>replyType = REPLY_CONTROLLER_DATA, deserializeBody = ControllerData_deserializeBody P\<rparr>"

definition ReplyProfileList :: "Protocol \<Rightarrow> string list ReplyClass" where
  "ReplyProfileList P =
     \<lparr>replyType = REPLY_PROFILE_LIST, deserializeBody = ProfileList_deserializeBody P\<rparr>"

subsection \<open>The socket\<close>

text \<open>
  An operation on the socket is recorded in \<open>ops\<close> (the latest last). A buffer handed
  to \<^verbatim>\<open>send\<close> is recorded as the message it serialises and the protocol version it was
  serialised for. \<^verbatim>\<open>isConnected\<close> only reads the state and is not recorded.

  What the socket is taken to do, the library not being among the sources: \<^verbatim>\<open>connect\<close> on
  a connected socket answers \<^verbatim>\<open>AlreadyConnected\<close>, and otherwise connects if the script
  says \<^verbatim>\<open>Success\<close>; \<^verbatim>\<open>disconnect\<close> answers \<^verbatim>\<open>NotConnected\<close> on a socket that is not
  connected, and otherwise closes it whatever the script reports; \<^verbatim>\<open>setTimeout\<close> and
  \<^verbatim>\<open>setBlockingMode\<close> change the setting if the script lets them succeed; \<^verbatim>\<open>send\<close> and
  \<^verbatim>\<open>receive\<close> answer what the script holds, and \<^verbatim>\<open>receive\<close> hands over the bytes that
  come with a \<^verbatim>\<open>Success\<close>. Both overloads of \<^verbatim>\<open>receive\<close> (into an array and into a
  vector) are the one operation \<open>sock_receive\<close>, with the number of bytes asked for.
\<close>

datatype SocketOp =
    OpConnect string "16 word"
  | OpDisconnect
  | OpSetTimeout nat
  | OpSetBlockingMode bool
  | OpSend Message uint32
  | OpReceive nat

record TcpSocket =
  connected :: bool
  blockingMode :: bool
  recvTimeout :: nat
  connectScript :: "SocketError stream"
  disconnectScript :: "SocketError stream"
  setTimeoutScript :: "bool stream"
  setBlockingScript :: "bool stream"
  sendScript :: "SocketError stream"
  recvScript :: "(SocketError \<times> byte list) stream"
  ops :: "SocketOp list"

definition sock_connect :: "string \<Rightarrow> 16 word \<Rightarrow> TcpSocket \<Rightarrow> SocketError \<times> TcpSocket" where
  "sock_connect host port s =
     (if connected s then (SE_AlreadyConnected, s\<lparr>ops := ops s @ [OpConnect host port]\<rparr>)
      else (shd (connectScript s),
            s\<lparr>connected := (shd (connectScript s) = SE_Success),
              connectScript := stl (connectScript s),
              ops := ops s @ [OpConnect host port]\<rparr>))"

definition sock_disconnect :: "TcpSocket \<Rightarrow> SocketError \<times> TcpSocket" where
  "sock_disconnect s =
     (if \<not> connected s then (SE_NotConnected, s\<lparr>ops := ops s @ [OpDisconnect]\<rparr>)
      else (shd (disconnectScript s),
            s\<lparr>connected := False,
              disconnectScript := stl (disconnectScript s),
              ops := ops s @ [OpDisconnect]\<rparr>))"

definition sock_setTimeout :: "nat \<Rightarrow> TcpSocket \<Rightarrow> bool \<times> TcpSocket" where
  "sock_setTimeout ms s =
     (shd (setTimeoutScript s),
      s\<lparr>recvTimeout := (if shd (setTimeoutScript s) then ms else recvTimeout s),
        setTimeoutScript := stl (setTimeoutScript s),
        ops := ops s @ [OpSetTimeout ms]\<rparr>)"

definition sock_setBlockingMode :: "bool \<Rightarrow> TcpSocket \<Rightarrow> bool \<times> TcpSocket" where
  "sock_setBlockingMode enable s =
     (shd (setBlockingScript s),
      s\<lparr>blockingMode := (if shd (setBlockingScript s) then enable else blockingMode s),
        setBlockingScript := stl (setBlockingScript s),
        ops := ops s @ [OpSetBlockingMode enable]\<rparr>)"

definition sock_send :: "Message \<Rightarrow> uint32 \<Rightarrow> TcpSocket \<Rightarrow> SocketError \<times> TcpSocket" where
  "sock_send message version s =
     (shd (sendScript s),
      s\<lparr>sendScript := stl (sendScript s), ops := ops s @ [OpSend message version]\<rparr>)"

definition sock_receive :: "nat \<Rightarrow> TcpSocket \<Rightarrow> SocketError \<times> byte list \<times> TcpSocket" where
  "sock_receive n s =
     (fst (shd (recvScript s)), snd (shd (recvScript s)),
      s\<lparr>recvScript := stl (recvScript s), ops := ops s @ [OpReceive n]\<rparr>)"

subsection \<open>The client\<close>

record Client =
  clientName :: string
  socket :: TcpSocket
  negotiatedProtocolVersion :: uint32
  isDeviceListOutOfDate :: bool

text \<open>
  The constructor. The new \<^verbatim>\<open>TcpSocket\<close> is not connected and nothing has been done on
  it; what the network will answer is its scripts, given by \<open>env\<close>.
\<close>

definition new_TcpSocket :: "TcpSocket \<Rightarrow> TcpSocket" where
  "new_TcpSocket env = env\<lparr>connected := False, blockingMode := True, ops := []\<rparr>"

definition new_Client :: "string \<Rightarrow> TcpSocket \<Rightarrow> Client" where
  "new_Client name env =
     \<lparr>clientName = name, socket = new_TcpSocket env,
      negotiatedProtocolVersion = 0, isDeviceListOutOfDate = True\<rparr>"

definition isConnected :: "Client \<Rightarrow> bool" where
  "isConnected c = connected (socket c)"

text \<open>
  The public member functions wrap the underscored ones in \<^verbatim>\<open>try\<close>/\<^verbatim>\<open>CATCH_ALL\<close>.
  What can throw in an underscored function is an allocation. \<^verbatim>\<open>sendMessage\<close> allocates
  the message and the buffer that it is serialised into; they have the size of the
  arguments, which the caller holds already, and the model takes these allocations to
  succeed. \<^verbatim>\<open>_setDeviceColor\<close> and \<^verbatim>\<open>_setZoneColor\<close> construct, before they send, a vector
  of as many colours as a number says: \<^verbatim>\<open>device.leds.size()\<close>, and the field
  \<^verbatim>\<open>zone.leds_count\<close>, to which a caller can give any 32-bit value. The model lets these
  two constructions throw; for these two operations the underscored function
  (\<open>setDeviceColor_impl\<close>, \<open>setZoneColor_impl\<close>) and its wrapper are both modelled. Every
  other public function is its underscored one, under the public name.

  \<^verbatim>\<open>std::vector<Color>( n, color )\<close> throws (\<^verbatim>\<open>std::length_error\<close> or
  \<^verbatim>\<open>std::bad_alloc\<close>) when \<open>n\<close> elements cannot be had. How many can be had at the time
  of a call is not in the sources: it is the argument \<open>capacity\<close> of the two operations.
\<close>

datatype Exception = std_exception

definition new_vector :: "nat \<Rightarrow> nat \<Rightarrow> 'a \<Rightarrow> Exception + 'a list" where
  "new_vector capacity n x = (if n \<le> capacity then Inr (replicate n x) else Inl std_exception)"

subsection \<open>Helpers: sendMessage, awaitMessage, checkForUpdateMessageArrival\<close>

definition sendMessage :: "Message \<Rightarrow> Client \<Rightarrow> bool \<times> Client" where
  "sendMessage message c =
     (let (res, sk) = sock_send message (negotiatedProtocolVersion c) (socket c)
      in (res = SE_Success, c\<lparr>socket := sk\<rparr>))"

text \<open>
  The status that \<^verbatim>\<open>awaitMessage\<close> gives for a failed \<^verbatim>\<open>receive\<close> (the same three
  branches after the header and after the body).
\<close>

definition recvFailure :: "SocketError \<Rightarrow> RequestStatus" where
  "recvFailure st =
     (if st = SE_ConnectionClosed then RS_ConnectionClosed
      else if st = SE_Timeout then RS_NoReply
      else RS_ReceiveError)"

text \<open>
  \<^verbatim>\<open>RecvResult<Message>\<close> is a status and a message that is meaningful only when the
  status is \<^verbatim>\<open>Success\<close>: \<open>Inl status\<close> for a failure, \<open>Inr message\<close> for \<^verbatim>\<open>Success\<close>.
\<close>

type_synonym 'm RecvResult = "RequestStatus + 'm"

partial_function (option) awaitMessage ::
  "Protocol \<Rightarrow> 'm ReplyClass \<Rightarrow> Client \<Rightarrow> ('m RecvResult \<times> Client) option" where
  "awaitMessage P M c =
     (let (headerStatus, headerBuffer, sk1) = sock_receive Header_size (socket c);
          c1 = c\<lparr>socket := sk1\<rparr>
      in if headerStatus \<noteq> SE_Success then Some (Inl (recvFailure headerStatus), c1)
         else case Header_deserialize P headerBuffer of
             None \<Rightarrow> Some (Inl RS_InvalidReply, c1)
           | Some header \<Rightarrow>
               if message_type header = DEVICE_LIST_UPDATED
               then awaitMessage P M (c1\<lparr>isDeviceListOutOfDate := True\<rparr>)
               else if message_type header \<noteq> replyType M then Some (Inl RS_InvalidReply, c1)
               else
                 let (bodyStatus, bodyBuffer, sk2) =
                       sock_receive (unat (message_size header)) (socket c1);
                     c2 = c1\<lparr>socket := sk2\<rparr>
                 in if bodyStatus \<noteq> SE_Success then Some (Inl (recvFailure bodyStatus), c2)
                    else (case deserializeBody M (negotiatedProtocolVersion c2) bodyBuffer of
                            None \<Rightarrow> Some (Inl RS_InvalidReply, c2)
                          | Some message \<Rightarrow> Some (Inr message, c2)))"

text \<open>
  \<^verbatim>\<open>Client::_disconnect\<close>, which the public \<^verbatim>\<open>disconnect\<close> forwards to. It stands
  here, before its place in the source, because \<^verbatim>\<open>enableBlockingAndReturn\<close> calls it.
\<close>

definition disconnect :: "Client \<Rightarrow> bool \<times> Client" where
  "disconnect c =
     (let (status, sk) = sock_disconnect (socket c);
          c1 = c\<lparr>socket := sk\<rparr>
      in if status = SE_Success then (True, c1)
         else if status = SE_NotConnected then (False, c1)
         else (True, c1))"

definition enableBlockingAndReturn :: "UpdateStatus \<Rightarrow> Client \<Rightarrow> UpdateStatus \<times> Client" where
  "enableBlockingAndReturn returnStatus c =
     (let (ok, sk) = sock_setBlockingMode True (socket c)
      in if \<not> ok
         then (US_CantRestoreSocket, snd (disconnect (c\<lparr>socket := sk\<rparr>)))
         else (returnStatus, c\<lparr>socket := sk\<rparr>))"

definition checkForUpdateMessageArrival :: "Protocol \<Rightarrow> Client \<Rightarrow> UpdateStatus \<times> Client" where
  "checkForUpdateMessageArrival P c =
     (let (ok, sk1) = sock_setBlockingMode False (socket c);
          c1 = c\<lparr>socket := sk1\<rparr>
      in if \<not> ok then (US_OtherSystemError, c1)
         else
           let (status, buffer, sk2) = sock_receive Header_size (socket c1);
               c2 = c1\<lparr>socket := sk2\<rparr>
           in if status = SE_WouldBlock then enableBlockingAndReturn US_UpToDate c2
              else if status = SE_ConnectionClosed
                then enableBlockingAndReturn US_ConnectionClosed c2
              else if status \<noteq> SE_Success
                then enableBlockingAndReturn US_OtherSystemError c2
              else if (case Header_deserialize P buffer of
                         None \<Rightarrow> True
                       | Some header \<Rightarrow> message_type header \<noteq> DEVICE_LIST_UPDATED)
                then enableBlockingAndReturn US_UnexpectedMessage c2
              else enableBlockingAndReturn US_OutOfDate c2)"

definition checkForDeviceUpdates :: "Protocol \<Rightarrow> Client \<Rightarrow> UpdateStatus \<times> Client" where
  "checkForDeviceUpdates P c =
     (if isDeviceListOutOfDate c then (US_OutOfDate, c)
      else
        let (status, c1) = checkForUpdateMessageArrival P c
        in if status = US_OutOfDate then (status, c1\<lparr>isDeviceListOutOfDate := True\<rparr>)
           else (status, c1))"

subsection \<open>Main API\<close>

definition connect :: "Protocol \<Rightarrow> string \<Rightarrow> 16 word \<Rightarrow> Client \<Rightarrow> (ConnectStatus \<times> Client) option" where
  "connect P host port c =
     (let (connectRes, sk1) = sock_connect host port (socket c);
          c1 = c\<lparr>socket := sk1\<rparr>
      in if connectRes \<noteq> SE_Success
         then Some (case connectRes of
                      SE_AlreadyConnected \<Rightarrow> CS_AlreadyConnected
                    | SE_NetworkingInitFailed \<Rightarrow> CS_NetworkingInitFailed
                    | SE_HostNotResolved \<Rightarrow> CS_HostNotResolved
                    | SE_ConnectFailed \<Rightarrow> CS_ConnectFailed
                    | _ \<Rightarrow> CS_OtherSystemError, c1)
         else
           let c2 = c1\<lparr>socket := snd (sock_setTimeout 500 (socket c1))\<rparr>;
               (sendVersionRes, c3) =
                  sendMessage (RequestProtocolVersion (implementedProtocolVersion P)) c2
           in if \<not> sendVersionRes
              then Some (CS_RequestVersionFailed, c3\<lparr>socket := snd (sock_disconnect (socket c3))\<rparr>)
              else case awaitMessage P (ReplyProtocolVersion P) c3 of
                  None \<Rightarrow> None
                | Some (requestVersionRes, c4) \<Rightarrow>
                    (case requestVersionRes of
                       Inl status \<Rightarrow>
                         Some (CS_RequestVersionFailed,
                               c4\<lparr>socket := snd (sock_disconnect (socket c4))\<rparr>)
                     | Inr serverVersion \<Rightarrow>
                         if serverVersion = 0
                         then Some (CS_VersionNotSupported,
                                    c4\<lparr>socket := snd (sock_disconnect (socket c4))\<rparr>)
                         else
                           let c5 = c4\<lparr>negotiatedProtocolVersion :=
                                          min (implementedProtocolVersion P) serverVersion\<rparr>;
                               (sendNameRes, c6) = sendMessage (SetClientName (clientName c5)) c5
                           in if \<not> sendNameRes
                              then Some (CS_SendNameFailed,
                                         c6\<lparr>socket := snd (sock_disconnect (socket c6))\<rparr>)
                              else Some (CS_Success, c6\<lparr>isDeviceListOutOfDate := True\<rparr>)))"

definition setTimeout :: "nat \<Rightarrow> Client \<Rightarrow> bool \<times> Client" where
  "setTimeout timeout c =
     (if \<not> connected (socket c) then (False, c)
      else let (ok, sk) = sock_setTimeout timeout (socket c) in (ok, c\<lparr>socket := sk\<rparr>))"

text \<open>
  The result structures. In the source each has its own \<^verbatim>\<open>status\<close> member; here they
  extend one record that holds it. A \<^verbatim>\<open>DeviceCountResult\<close> that a failure path returns
  without having assigned \<^verbatim>\<open>count\<close> has \<open>count = None\<close>; the \<^verbatim>\<open>unique_ptr\<close> of
  \<^verbatim>\<open>DeviceInfoResult\<close> is an option.
\<close>

record RequestResult =
  status :: RequestStatus

record DeviceListResult = RequestResult +
  devices :: "Device list"

record DeviceCountResult = RequestResult +
  count :: "uint32 option"

record DeviceInfoResult = RequestResult +
  device :: "Device option"

record ProfileListResult = RequestResult +
  profiles :: "string list"

text \<open>
  The \<^verbatim>\<open>for\<close> loop of \<^verbatim>\<open>_requestDeviceList\<close>, from \<open>deviceIdx\<close> on, with the devices
  appended so far. The first component of its value is the status of an early
  \<^verbatim>\<open>return result\<close>, or \<open>None\<close> when the loop has run to its end.
\<close>

function deviceLoop ::
  "Protocol \<Rightarrow> uint32 \<Rightarrow> uint32 \<Rightarrow> Device list \<Rightarrow> Client
     \<Rightarrow> (RequestStatus option \<times> Device list \<times> Client) option" where
  "deviceLoop P deviceCount deviceIdx devs c =
     (if deviceIdx < deviceCount then
        let (sent, c1) =
              sendMessage (RequestControllerData deviceIdx (negotiatedProtocolVersion c)) c
        in if \<not> sent then Some (Some RS_SendRequestFailed, devs, c1)
           else case awaitMessage P (ReplyControllerData P) c1 of
               None \<Rightarrow> None
             | Some (deviceDataResult, c2) \<Rightarrow>
                 (case deviceDataResult of
                    Inl st \<Rightarrow> Some (Some st, devs, c2)
                  | Inr device_desc \<Rightarrow>
                      deviceLoop P deviceCount (deviceIdx + 1) (devs @ [device_desc]) c2)
      else Some (None, devs, c))"
  by pat_completeness auto

termination
proof (relation "measure (\<lambda>(P, deviceCount, deviceIdx, devs, c). unat deviceCount - unat deviceIdx)",
    goal_cases)
  case 1
  show ?case by simp
next
  case (2 P deviceCount deviceIdx devs c x xa y x2 xb ya b)
  from \<open>deviceIdx < deviceCount\<close> have lt: "unat deviceIdx < unat deviceCount"
    by (simp add: word_less_nat_alt)
  have "unat deviceCount < 2 ^ 32"
    using unsigned_less [of deviceCount, where ?'a = nat] by simp
  with lt have "unat deviceIdx + 1 < 2 ^ 32" by simp
  then have "unat (deviceIdx + 1) = Suc (unat deviceIdx)"
    by (simp add: unat_word_ariths)
  with lt show ?case by simp
qed

declare deviceLoop.simps [simp del]

text \<open>
  One pass of the \<^verbatim>\<open>do\<close> loop of \<^verbatim>\<open>_requestDeviceList\<close>: the list is cleared, the flag
  is cleared, the count is asked for and then every device. The value has the form of
  that of \<open>deviceLoop\<close>.
\<close>

definition requestDeviceList_body ::
  "Protocol \<Rightarrow> Client \<Rightarrow> (RequestStatus option \<times> Device list \<times> Client) option" where
  "requestDeviceList_body P c =
     (let c0 = c\<lparr>isDeviceListOutOfDate := False\<rparr>;
          (sent, c1) = sendMessage RequestControllerCount c0
      in if \<not> sent then Some (Some RS_SendRequestFailed, [], c1)
         else case awaitMessage P (ReplyControllerCount P) c1 of
             None \<Rightarrow> None
           | Some (deviceCountResult, c2) \<Rightarrow>
               (case deviceCountResult of
                  Inl st \<Rightarrow> Some (Some st, [], c2)
                | Inr deviceCount \<Rightarrow> deviceLoop P deviceCount 0 [] c2))"

text \<open>
  The \<^verbatim>\<open>do\<close> ... \<^verbatim>\<open>while (_isDeviceListOutOfDate)\<close> loop: an early return of the pass
  is the result; a completed pass is repeated when the flag is set at its end.
\<close>

partial_function (option) requestDeviceList_loop ::
  "Protocol \<Rightarrow> Client \<Rightarrow> (DeviceListResult \<times> Client) option" where
  "requestDeviceList_loop P c =
     (case requestDeviceList_body P c of
        None \<Rightarrow> None
      | Some (early, devs, c1) \<Rightarrow>
          (case early of
             Some st \<Rightarrow> Some (\<lparr>status = st, devices = devs\<rparr>, c1)
           | None \<Rightarrow>
               if isDeviceListOutOfDate c1 then requestDeviceList_loop P c1
               else Some (\<lparr>status = RS_Success, devices = devs\<rparr>, c1)))"

definition requestDeviceList :: "Protocol \<Rightarrow> Client \<Rightarrow> (DeviceListResult \<times> Client) option" where
  "requestDeviceList P c =
     (if \<not> connected (socket c) then Some (\<lparr>status = RS_NotConnected, devices = []\<rparr>, c)
      else requestDeviceList_loop P c)"

definition requestDeviceCount :: "Protocol \<Rightarrow> Client \<Rightarrow> (DeviceCountResult \<times> Client) option" where
  "requestDeviceCount P c =
     (if \<not> connected (socket c) then Some (\<lparr>status = RS_NotConnected, count = Some 0\<rparr>, c)
      else
        let (sent, c1) = sendMessage RequestControllerCount c
        in if \<not> sent then Some (\<lparr>status = RS_SendRequestFailed, count = None\<rparr>, c1)
           else case awaitMessage P (ReplyControllerCount P) c1 of
               None \<Rightarrow> None
             | Some (deviceCountResult, c2) \<Rightarrow>
                 (case deviceCountResult of
                    Inl st \<Rightarrow> Some (\<lparr>status = st, count = None\<rparr>, c2)
                  | Inr n \<Rightarrow> Some (\<lparr>status = RS_Success, count = Some n\<rparr>, c2)))"

definition requestDeviceInfo ::
  "Protocol \<Rightarrow> uint32 \<Rightarrow> Client \<Rightarrow> (DeviceInfoResult \<times> Client) option" where
  "requestDeviceInfo P deviceIdx c =
     (if \<not> connected (socket c) then Some (\<lparr>status = RS_NotConnected, device = None\<rparr>, c)
      else
        let (sent, c1) =
              sendMessage (RequestControllerData deviceIdx (negotiatedProtocolVersion c)) c
        in if \<not> sent then Some (\<lparr>status = RS_SendRequestFailed, device = None\<rparr>, c1)
           else case awaitMessage P (ReplyControllerData P) c1 of
               None \<Rightarrow> None
             | Some (deviceDataResult, c2) \<Rightarrow>
                 (case deviceDataResult of
                    Inl st \<Rightarrow> Some (\<lparr>status = st, device = None\<rparr>, c2)
                  | Inr device_desc \<Rightarrow>
                      Some (\<lparr>status = RS_Success, device = Some device_desc\<rparr>, c2)))"

definition switchToCustomMode :: "Device \<Rightarrow> Client \<Rightarrow> RequestStatus \<times> Client" where
  "switchToCustomMode dev c =
     (if \<not> connected (socket c) then (RS_NotConnected, c)
      else
        let (sent, c1) = sendMessage (SetCustomMode (dev_idx dev)) c
        in if \<not> sent then (RS_SendRequestFailed, c1) else (RS_Success, c1))"

definition changeMode :: "Device \<Rightarrow> Mode \<Rightarrow> Client \<Rightarrow> RequestStatus \<times> Client" where
  "changeMode dev mode c =
     (if \<not> connected (socket c) then (RS_NotConnected, c)
      else
        let (sent, c1) =
              sendMessage (UpdateMode (dev_idx dev) (mode_idx mode) mode
                             (negotiatedProtocolVersion c)) c
        in if \<not> sent then (RS_SendRequestFailed, c1) else (RS_Success, c1))"

definition saveMode :: "Device \<Rightarrow> Mode \<Rightarrow> Client \<Rightarrow> RequestStatus \<times> Client" where
  "saveMode dev mode c =
     (if \<not> connected (socket c) then (RS_NotConnected, c)
      else
        let (sent, c1) =
              sendMessage (SaveMode (dev_idx dev) (mode_idx mode) mode
                             (negotiatedProtocolVersion c)) c
        in if \<not> sent then (RS_SendRequestFailed, c1) else (RS_Success, c1))"

text \<open>
  \<^verbatim>\<open>_setDeviceColor\<close> and \<^verbatim>\<open>_setZoneColor\<close>: \<open>Inl\<close> is an exception that leaves the function,
  with the client as it is at that moment; \<open>Inr\<close> is a return. The public
  \<open>setDeviceColor\<close> and \<open>setZoneColor\<close> are the wrappers: a caught exception becomes
  \<^verbatim>\<open>UnexpectedError\<close>.
\<close>

definition setDeviceColor_impl ::
  "nat \<Rightarrow> Device \<Rightarrow> Color \<Rightarrow> Client \<Rightarrow> (Exception \<times> Client) + (RequestStatus \<times> Client)" where
  "setDeviceColor_impl capacity dev color c =
     (if \<not> connected (socket c) then Inr (RS_NotConnected, c)
      else case new_vector capacity (length (dev_leds dev)) color of
          Inl ex \<Rightarrow> Inl (ex, c)
        | Inr allColorsInDevice \<Rightarrow>
            let (sent, c1) = sendMessage (UpdateLEDs (dev_idx dev) allColorsInDevice) c
            in if \<not> sent then Inr (RS_SendRequestFailed, c1) else Inr (RS_Success, c1))"

definition setDeviceColor :: "nat \<Rightarrow> Device \<Rightarrow> Color \<Rightarrow> Client \<Rightarrow> RequestStatus \<times> Client" where
  "setDeviceColor capacity dev color c =
     (case setDeviceColor_impl capacity dev color c of
        Inl (ex, c1) \<Rightarrow> (RS_UnexpectedError, c1)
      | Inr result \<Rightarrow> result)"

definition setZoneColor_impl ::
  "nat \<Rightarrow> Zone \<Rightarrow> Color \<Rightarrow> Client \<Rightarrow> (Exception \<times> Client) + (RequestStatus \<times> Client)" where
  "setZoneColor_impl capacity zone color c =
     (if \<not> connected (socket c) then Inr (RS_NotConnected, c)
      else case new_vector capacity (unat (zone_leds_count zone)) color of
          Inl ex \<Rightarrow> Inl (ex, c)
        | Inr allColorsInZone \<Rightarrow>
            let (sent, c1) =
                  sendMessage
                    (UpdateZoneLEDs (zone_parentIdx zone) (zone_idx zone) allColorsInZone) c
            in if \<not> sent then Inr (RS_SendRequestFailed, c1) else Inr (RS_Success, c1))"

definition setZoneColor :: "nat \<Rightarrow> Zone \<Rightarrow> Color \<Rightarrow> Client \<Rightarrow> RequestStatus \<times> Client" where
  "setZoneColor capacity zone color c =
     (case setZoneColor_impl capacity zone color c of
        Inl (ex, c1) \<Rightarrow> (RS_UnexpectedError, c1)
      | Inr result \<Rightarrow> result)"

definition setZoneSize :: "Zone \<Rightarrow> uint32 \<Rightarrow> Client \<Rightarrow> RequestStatus \<times> Client" where
  "setZoneSize zone newSize c =
     (if \<not> connected (socket c) then (RS_NotConnected, c)
      else
        let (sent, c1) = sendMessage (ResizeZone (zone_parentIdx zone) (zone_idx zone) newSize) c
        in if \<not> sent then (RS_SendRequestFailed, c1) else (RS_Success, c1))"

definition setLEDColor :: "LED \<Rightarrow> Color \<Rightarrow> Client \<Rightarrow> RequestStatus \<times> Client" where
  "setLEDColor led color c =
     (if \<not> connected (socket c) then (RS_NotConnected, c)
      else
        let (sent, c1) = sendMessage (UpdateSingleLED (led_parentIdx led) (led_idx led) color) c
        in if \<not> sent then (RS_SendRequestFailed, c1) else (RS_Success, c1))"

definition requestProfileList :: "Protocol \<Rightarrow> Client \<Rightarrow> (ProfileListResult \<times> Client) option" where
  "requestProfileList P c =
     (if \<not> connected (socket c) then Some (\<lparr>status = RS_NotConnected, profiles = []\<rparr>, c)
      else
        let (sent, c1) = sendMessage RequestProfileList c
        in if \<not> sent then Some (\<lparr>status = RS_SendRequestFailed, profiles = []\<rparr>, c1)
           else case awaitMessage P (ReplyProfileList P) c1 of
               None \<Rightarrow> None
             | Some (deviceDataResult, c2) \<Rightarrow>
                 (case deviceDataResult of
                    Inl st \<Rightarrow> Some (\<lparr>status = st, profiles = []\<rparr>, c2)
                  | Inr names \<Rightarrow> Some (\<lparr>status = RS_Success, profiles = names\<rparr>, c2)))"

definition saveProfile :: "string \<Rightarrow> Client \<Rightarrow> RequestStatus \<times> Client" where
  "saveProfile profileName c =
     (if \<not> connected (socket c) then (RS_NotConnected, c)
      else
        let (sent, c1) = sendMessage (RequestSaveProfile profileName) c
        in if \<not> sent then (RS_SendRequestFailed, c1) else (RS_Success, c1))"

definition loadProfile :: "string \<Rightarrow> Client \<Rightarrow> RequestStatus \<times> Client" where
  "loadProfile profileName c =
     (if \<not> connected (socket c) then (RS_NotConnected, c)
      else
        let (sent, c1) = sendMessage (RequestLoadProfile profileName) c
        in if \<not> sent then (RS_SendRequestFailed, c1) else (RS_Success, c1))"

definition deleteProfile :: "string \<Rightarrow> Client \<Rightarrow> RequestStatus \<times> Client" where
  "deleteProfile profileName c =
     (if \<not> connected (socket c) then (RS_NotConnected, c)
      else
        let (sent, c1) = sendMessage (RequestLoadProfile profileName) c
        in if \<not> sent then (RS_SendRequestFailed, c1) else (RS_Success, c1))"

subsection \<open>Observations on a run\<close>

text \<open>The socket operations performed between the client \<open>c\<close> and the later client \<open>c'\<close>.\<close>

definition newOps :: "Client \<Rightarrow> Client \<Rightarrow> SocketOp list" where
  "newOps c c' = drop (length (ops (socket c))) (ops (socket c'))"

text \<open>
  What \<^verbatim>\<open>receive\<close> gives when a \<^verbatim>\<open>DEVICE_LIST_UPDATED\<close> notification arrives: success,
  and bytes that \<^verbatim>\<open>Header::deserialize\<close> accepts as a header of that type.
\<close>

definition isNotification :: "Protocol \<Rightarrow> SocketError \<times> byte list \<Rightarrow> bool" where
  "isNotification P ev =
     (fst ev = SE_Success \<and>
      (case Header_deserialize P (snd ev) of
         None \<Rightarrow> False
       | Some header \<Rightarrow> message_type header = DEVICE_LIST_UPDATED))"

text \<open>
  The client after \<open>k\<close> reads of a header, of which \<open>n\<close> were notifications: the reads are
  in the trace, their data is gone from the inbound stream, and the flag is set if there
  was a notification.
\<close>

definition afterHeaders :: "nat \<Rightarrow> nat \<Rightarrow> Client \<Rightarrow> Client" where
  "afterHeaders k n c =
     c\<lparr>socket := (socket c)
          \<lparr>recvScript := sdrop k (recvScript (socket c)),
           ops := ops (socket c) @ replicate k (OpReceive Header_size)\<rparr>,
       isDeviceListOutOfDate := (isDeviceListOutOfDate c \<or> 0 < n)\<rparr>"

text \<open>The client after one more read, of a body of \<open>len\<close> bytes.\<close>

definition afterBody :: "nat \<Rightarrow> Client \<Rightarrow> Client" where
  "afterBody len c =
     c\<lparr>socket := (socket c)
          \<lparr>recvScript := stl (recvScript (socket c)),
           ops := ops (socket c) @ [OpReceive len]\<rparr>\<rparr>"

text \<open>
  The client at the start of the pass that follows \<open>n\<close> completed passes of
  \<open>requestDeviceList_body\<close> each of which ended with the flag set, if there is one.
\<close>

primrec afterRestarts :: "Protocol \<Rightarrow> nat \<Rightarrow> Client \<Rightarrow> Client option" where
  "afterRestarts P 0 c = Some c"
| "afterRestarts P (Suc n) c =
     (case requestDeviceList_body P c of
        Some (None, devs, c1) \<Rightarrow>
          if isDeviceListOutOfDate c1 then afterRestarts P n c1 else None
      | _ \<Rightarrow> None)"

text \<open>
  The client after one message has been handed to \<^verbatim>\<open>send\<close> and nothing else has been
  done: the send is in the trace and its outcome is taken from the script; the inbound
  stream and every field of the client are untouched. \<open>sentOnly\<close> says that \<open>r\<close> is such
  a client together with \<^verbatim>\<open>Success\<close> if the send succeeded and \<^verbatim>\<open>SendRequestFailed\<close> if
  it did not.
\<close>

definition afterSend :: "Message \<Rightarrow> Client \<Rightarrow> Client" where
  "afterSend message c =
     c\<lparr>socket := (socket c)
          \<lparr>sendScript := stl (sendScript (socket c)),
           ops := ops (socket c) @ [OpSend message (negotiatedProtocolVersion c)]\<rparr>\<rparr>"

definition sentOnly :: "Message \<Rightarrow> Client \<Rightarrow> RequestStatus \<times> Client \<Rightarrow> bool" where
  "sentOnly message c r =
     (snd r = afterSend message c \<and>
      fst r = (if shd (sendScript (socket c)) = SE_Success then RS_Success
               else RS_SendRequestFailed))"

text \<open>
  An exchange is what the network delivers in answer to one request: the notifications
  that the server pushes before it answers, each read as a header of its own, and then
  the header and the body of the reply. \<open>exchangeEvents\<close> is the sequence of results that
  \<^verbatim>\<open>receive\<close> gives for it.
\<close>

record Exchange =
  pushed :: "(SocketError \<times> byte list) list"
  header_bytes :: "byte list"
  body_bytes :: "byte list"

definition exchangeEvents :: "Exchange \<Rightarrow> (SocketError \<times> byte list) list" where
  "exchangeEvents x = pushed x @ [(SE_Success, header_bytes x), (SE_Success, body_bytes x)]"

text \<open>
  The exchange \<open>x\<close> answers a request with \<open>message\<close>: what is pushed are notifications,
  \<^verbatim>\<open>Header::deserialize\<close> takes the header for one of the expected reply type, and
  \<^verbatim>\<open>deserializeBody\<close> of that reply decodes the body to \<open>message\<close>. \<open>bodyLength\<close> is the
  size that the header announces.
\<close>

definition answers :: "Protocol \<Rightarrow> 'm ReplyClass \<Rightarrow> uint32 \<Rightarrow> Exchange \<Rightarrow> 'm \<Rightarrow> bool" where
  "answers P M version x message =
     (list_all (isNotification P) (pushed x) \<and>
      (case Header_deserialize P (header_bytes x) of
         None \<Rightarrow> False
       | Some header \<Rightarrow>
           message_type header = replyType M \<and> message_type header \<noteq> DEVICE_LIST_UPDATED) \<and>
      deserializeBody M version (body_bytes x) = Some message)"

definition bodyLength :: "Protocol \<Rightarrow> Exchange \<Rightarrow> nat" where
  "bodyLength P x =
     (case Header_deserialize P (header_bytes x) of
        None \<Rightarrow> 0
      | Some header \<Rightarrow> unat (message_size header))"

text \<open>
  The client after the exchange \<open>x\<close> for \<open>request\<close>: the request has been sent, one header
  has been read for every notification and one for the reply, then the body; the flag is
  set if there was a notification.
\<close>

definition afterExchange :: "Protocol \<Rightarrow> Message \<Rightarrow> Exchange \<Rightarrow> Client \<Rightarrow> Client" where
  "afterExchange P request x c =
     afterBody (bodyLength P x)
       (afterHeaders (Suc (length (pushed x))) (length (pushed x)) (afterSend request c))"

text \<open>
  A sweep, as the network sees it: the exchange for the count request, the exchanges for
  the device requests in their order, and the devices that the bodies of these decode
  to. \<open>sweepEvents\<close> is what \<^verbatim>\<open>receive\<close> gives during the sweep and \<open>sweepRequests\<close> the
  number of requests that are sent in it.
\<close>

record Sweep =
  countExchange :: Exchange
  deviceExchanges :: "Exchange list"
  sweepDevices :: "Device list"

definition sweepEvents :: "Sweep \<Rightarrow> (SocketError \<times> byte list) list" where
  "sweepEvents sw =
     exchangeEvents (countExchange sw) @ concat (map exchangeEvents (deviceExchanges sw))"

definition sweepRequests :: "Sweep \<Rightarrow> nat" where
  "sweepRequests sw = Suc (length (deviceExchanges sw))"

text \<open>
  The client after the exchanges for the devices from \<open>deviceIdx\<close> on, and the client
  after a sweep: the flag is cleared, then come the exchange for the count and those for
  the devices from 0 on.
\<close>

fun afterDevices :: "Protocol \<Rightarrow> uint32 \<Rightarrow> Exchange list \<Rightarrow> Client \<Rightarrow> Client" where
  "afterDevices P deviceIdx [] c = c"
| "afterDevices P deviceIdx (x # xs) c =
     afterDevices P (deviceIdx + 1) xs
       (afterExchange P (RequestControllerData deviceIdx (negotiatedProtocolVersion c)) x c)"

definition afterSweep :: "Protocol \<Rightarrow> Sweep \<Rightarrow> Client \<Rightarrow> Client" where
  "afterSweep P sw c =
     afterDevices P 0 (deviceExchanges sw)
       (afterExchange P RequestControllerCount (countExchange sw)
          (c\<lparr>isDeviceListOutOfDate := False\<rparr>))"

text \<open>
  The network serves the sweep \<open>sw\<close> to the client \<open>c\<close>, the server having \<open>deviceCount\<close>
  devices: the inbound stream of \<open>c\<close> begins with the events of \<open>sw\<close>, the sends of its
  requests succeed, the count exchange answers with \<open>deviceCount\<close>, and the device
  exchanges, not more than \<open>deviceCount\<close> of them, answer with the devices of \<open>sw\<close>. The
  sweep is complete when there is an exchange for every device. It is notified when a
  notification is pushed in one of its exchanges, that is when the flag becomes set
  during the sweep.
\<close>

definition served :: "Protocol \<Rightarrow> Client \<Rightarrow> Sweep \<Rightarrow> uint32 \<Rightarrow> bool" where
  "served P c sw deviceCount =
     (stake (length (sweepEvents sw)) (recvScript (socket c)) = sweepEvents sw \<and>
      stake (sweepRequests sw) (sendScript (socket c)) = replicate (sweepRequests sw) SE_Success \<and>
      answers P (ReplyControllerCount P) (negotiatedProtocolVersion c) (countExchange sw) deviceCount \<and>
      length (deviceExchanges sw) \<le> unat deviceCount \<and>
      list_all2 (answers P (ReplyControllerData P) (negotiatedProtocolVersion c))
        (deviceExchanges sw) (sweepDevices sw))"

definition complete :: "Protocol \<Rightarrow> Client \<Rightarrow> Sweep \<Rightarrow> bool" where
  "complete P c sw =
     (length (deviceExchanges sw) < 2 ^ 32 \<and>
      served P c sw (of_nat (length (deviceExchanges sw))))"

definition notified :: "Sweep \<Rightarrow> bool" where
  "notified sw = (\<exists>x \<in> set (countExchange sw # deviceExchanges sw). pushed x \<noteq> [])"

text \<open>
  The network serves the sweeps \<open>sws\<close> to the client one after the other, each of them
  complete and notified; and the client that they leave behind.
\<close>

fun restarts :: "Protocol \<Rightarrow> Client \<Rightarrow> Sweep list \<Rightarrow> bool" where
  "restarts P c [] = True"
| "restarts P c (sw # sws) =
     (complete P c sw \<and> notified sw \<and> restarts P (afterSweep P sw c) sws)"

fun afterSweeps :: "Protocol \<Rightarrow> Sweep list \<Rightarrow> Client \<Rightarrow> Client" where
  "afterSweeps P [] c = c"
| "afterSweeps P (sw # sws) c = afterSweeps P sws (afterSweep P sw c)"

subsection \<open>An example protocol and example sockets\<close>

text \<open>
  An instance of the codec for the examples. The header is that of the spec: the magic
  \<^verbatim>\<open>ORGB\<close> and three little-endian 32-bit numbers (device index, message type, body
  size); the codes stand for the four replies and the notification. The bodies of the
  version and count replies are one little-endian 32-bit number. The device record is
  reduced to four bytes that give the index of the device, and the only profile list is
  the empty one.
\<close>

definition le32 :: "byte list \<Rightarrow> uint32" where
  "le32 bs =
     (case bs of
        [b0, b1, b2, b3] \<Rightarrow> ucast b0 + 256 * ucast b1 + 65536 * ucast b2 + 16777216 * ucast b3
      | _ \<Rightarrow> 0)"

definition exampleMessageType :: "uint32 \<Rightarrow> MessageType option" where
  "exampleMessageType code =
     (if code = 0 then Some REPLY_CONTROLLER_COUNT
      else if code = 1 then Some REPLY_CONTROLLER_DATA
      else if code = 40 then Some REPLY_PROTOCOL_VERSION
      else if code = 100 then Some DEVICE_LIST_UPDATED
      else if code = 150 then Some REPLY_PROFILE_LIST
      else None)"

definition exampleHeader :: "byte list \<Rightarrow> Header option" where
  "exampleHeader bs =
     (if length bs = 16 \<and> take 4 bs = [0x4F, 0x52, 0x47, 0x42]
      then case exampleMessageType (le32 (take 4 (drop 8 bs))) of
          None \<Rightarrow> None
        | Some t \<Rightarrow>
            Some \<lparr>device_idx = le32 (take 4 (drop 4 bs)), message_type = t,
                  message_size = le32 (drop 12 bs)\<rparr>
      else None)"

definition exampleU32 :: "uint32 \<Rightarrow> byte list \<Rightarrow> uint32 option" where
  "exampleU32 version bs = (if length bs = 4 then Some (le32 bs) else None)"

definition exampleDevice :: "uint32 \<Rightarrow> byte list \<Rightarrow> Device option" where
  "exampleDevice version bs =
     (if length bs = 4 then Some \<lparr>dev_idx = le32 bs, dev_name = [], dev_leds = []\<rparr> else None)"

definition exampleProtocol :: Protocol where
  "exampleProtocol =
     \<lparr>implementedProtocolVersion = 4,
      Header_deserialize = exampleHeader,
      ProtocolVersion_deserializeBody = exampleU32,
      ControllerCount_deserializeBody = exampleU32,
      ControllerData_deserializeBody = exampleDevice,
      ProfileList_deserializeBody = (\<lambda>version bs. if bs = [0, 0] then Some [] else None)\<rparr>"

text \<open>A received header with the given type code and body size, and a received body.\<close>

definition frameHeader :: "byte \<Rightarrow> byte \<Rightarrow> SocketError \<times> byte list" where
  "frameHeader code len =
     (SE_Success, [0x4F, 0x52, 0x47, 0x42, 0, 0, 0, 0, code, 0, 0, 0, len, 0, 0, 0])"

definition frameBody :: "byte \<Rightarrow> SocketError \<times> byte list" where
  "frameBody v = (SE_Success, [v, 0, 0, 0])"

text \<open>
  A network on which every operation succeeds and nothing arrives, and a client that is
  connected over it and holds a current device list.
\<close>

definition quietSocket :: TcpSocket where
  "quietSocket =
     \<lparr>connected = False, blockingMode = True, recvTimeout = 0,
      connectScript = sconst SE_Success, disconnectScript = sconst SE_Success,
      setTimeoutScript = sconst True, setBlockingScript = sconst True,
      sendScript = sconst SE_Success, recvScript = sconst (SE_Timeout, []), ops = []\<rparr>"

definition readyClient :: Client where
  "readyClient =
     \<lparr>clientName = ''orgb::Client'', socket = quietSocket\<lparr>connected := True\<rparr>,
      negotiatedProtocolVersion = 4, isDeviceListOutOfDate = False\<rparr>"

text \<open>
  The ready client with a notification waiting on its socket; the same on a socket that
  can be switched to non-blocking mode but not back; and the ready client with an
  unsolicited count reply waiting.
\<close>

definition pendingNotificationClient :: Client where
  "pendingNotificationClient =
     readyClient\<lparr>socket := (socket readyClient)
       \<lparr>recvScript := frameHeader 100 0 ## sconst (SE_Timeout, [])\<rparr>\<rparr>"

definition restoreFailsClient :: Client where
  "restoreFailsClient =
     readyClient\<lparr>socket := (socket readyClient)
       \<lparr>setBlockingScript := True ## False ## sconst True,
        recvScript := frameHeader 100 0 ## sconst (SE_WouldBlock, [])\<rparr>\<rparr>"

definition unsolicitedReplyClient :: Client where
  "unsolicitedReplyClient =
     readyClient\<lparr>socket := (socket readyClient)
       \<lparr>recvScript := frameHeader 0 4 ## frameBody 2 ## sconst (SE_Timeout, [])\<rparr>\<rparr>"

text \<open>
  The ready client as two notifications, the header of a version reply and its body,
  the version 3, reach it.
\<close>

definition notifiedClient :: Client where
  "notifiedClient =
     readyClient\<lparr>socket := (socket readyClient)
       \<lparr>recvScript := frameHeader 100 0 ## frameHeader 100 0 ## frameHeader 40 4 ##
                       frameBody 3 ## sconst (SE_Timeout, [])\<rparr>\<rparr>"

text \<open>
  A new client on a network whose server sends a notification and then answers the
  version request with version 0.
\<close>

definition legacyServerClient :: Client where
  "legacyServerClient =
     new_Client ''orgb::Client''
       (quietSocket\<lparr>recvScript := frameHeader 100 0 ## frameHeader 40 4 ## frameBody 0 ##
                                   sconst (SE_Timeout, [])\<rparr>)"

text \<open>
  A network for one session: the server answers the version request with version 4 and
  the count request with no devices, and once the socket has been closed every operation
  on it fails. \<open>closedClient\<close> is the client that \<open>connect\<close>, \<open>requestDeviceList\<close> and
  \<open>disconnect\<close> leave on this network: it is not connected and its out-of-date flag is
  clear.
\<close>

definition sessionNetwork :: TcpSocket where
  "sessionNetwork =
     quietSocket
       \<lparr>setTimeoutScript := True ## sconst False,
        setBlockingScript := sconst False,
        sendScript := SE_Success ## SE_Success ## SE_Success ## sconst SE_NotConnected,
        recvScript := frameHeader 40 4 ## frameBody 4 ## frameHeader 0 4 ## frameBody 0 ##
                      sconst (SE_NotConnected, [])\<rparr>"

definition closedClient :: Client where
  "closedClient =
     \<lparr>clientName = ''orgb::Client'',
      socket =
        \<lparr>connected = False, blockingMode = True, recvTimeout = 500,
         connectScript = sconst SE_Success, disconnectScript = sconst SE_Success,
         setTimeoutScript = sconst False, setBlockingScript = sconst False,
         sendScript = sconst SE_NotConnected, recvScript = sconst (SE_NotConnected, []),
         ops =
           [OpConnect ''127.0.0.1'' 6742, OpSetTimeout 500,
            OpSend (RequestProtocolVersion 4) 0, OpReceive 16, OpReceive 4,
            OpSend (SetClientName ''orgb::Client'') 4,
            OpSend RequestControllerCount 4, OpReceive 16, OpReceive 4,
            OpDisconnect]\<rparr>,
      negotiatedProtocolVersion = 4, isDeviceListOutOfDate = False\<rparr>"

text \<open>
  The ready client and a server with three devices that announces a change of its device
  list after it has sent the second one, and that has two devices when it is asked
  again (devices are told apart by their index: 10, 11, 12 and then 20, 21).
\<close>

definition restartClient :: Client where
  "restartClient =
     readyClient\<lparr>socket := (socket readyClient)
       \<lparr>recvScript :=
          frameHeader 0 4 ## frameBody 3 ##
          frameHeader 1 4 ## frameBody 10 ##
          frameHeader 1 4 ## frameBody 11 ##
          frameHeader 100 0 ##
          frameHeader 1 4 ## frameBody 12 ##
          frameHeader 0 4 ## frameBody 2 ##
          frameHeader 1 4 ## frameBody 20 ##
          frameHeader 1 4 ## frameBody 21 ##
          sconst (SE_Timeout, [])\<rparr>\<rparr>"

text \<open>
  The ready client and a server with two devices that announces a change of its device
  list before it answers the count request, sends the first device and then nothing.
\<close>

definition interruptedClient :: Client where
  "interruptedClient =
     readyClient\<lparr>socket := (socket readyClient)
       \<lparr>recvScript :=
          frameHeader 100 0 ##
          frameHeader 0 4 ## frameBody 2 ##
          frameHeader 1 4 ## frameBody 10 ##
          sconst (SE_Timeout, [])\<rparr>\<rparr>"

text \<open>
  What the first pass over \<open>restartClient\<close> and the second one leave behind, and what
  the only pass over \<open>interruptedClient\<close> leaves behind.
\<close>

definition restartClient_pass1 :: Client where
  "restartClient_pass1 =
     readyClient\<lparr>socket := (socket readyClient)
       \<lparr>recvScript :=
          frameHeader 0 4 ## frameBody 2 ##
          frameHeader 1 4 ## frameBody 20 ##
          frameHeader 1 4 ## frameBody 21 ##
          sconst (SE_Timeout, []),
        ops :=
          [OpSend RequestControllerCount 4, OpReceive 16, OpReceive 4,
           OpSend (RequestControllerData 0 4) 4, OpReceive 16, OpReceive 4,
           OpSend (RequestControllerData 1 4) 4, OpReceive 16, OpReceive 4,
           OpSend (RequestControllerData 2 4) 4, OpReceive 16, OpReceive 16, OpReceive 4]\<rparr>,
       isDeviceListOutOfDate := True\<rparr>"

definition restartClient_pass2 :: Client where
  "restartClient_pass2 =
     readyClient\<lparr>socket := (socket readyClient)
       \<lparr>recvScript := sconst (SE_Timeout, []),
        ops :=
          [OpSend RequestControllerCount 4, OpReceive 16, OpReceive 4,
           OpSend (RequestControllerData 0 4) 4, OpReceive 16, OpReceive 4,
           OpSend (RequestControllerData 1 4) 4, OpReceive 16, OpReceive 4,
           OpSend (RequestControllerData 2 4) 4, OpReceive 16, OpReceive 16, OpReceive 4,
           OpSend RequestControllerCount 4, OpReceive 16, OpReceive 4,
           OpSend (RequestControllerData 0 4) 4, OpReceive 16, OpReceive 4,
           OpSend (RequestControllerData 1 4) 4, OpReceive 16, OpReceive 4]\<rparr>\<rparr>"

definition interruptedClient_pass1 :: Client where
  "interruptedClient_pass1 =
     readyClient\<lparr>socket := (socket readyClient)
       \<lparr>recvScript := sconst (SE_Timeout, []),
        ops :=
          [OpSend RequestControllerCount 4, OpReceive 16, OpReceive 16, OpReceive 4,
           OpSend (RequestControllerData 0 4) 4, OpReceive 16, OpReceive 4,
           OpSend (RequestControllerData 1 4) 4, OpReceive 16]\<rparr>,
       isDeviceListOutOfDate := True\<rparr>"

text \<open>The device with the given index that the example codec decodes.\<close>

definition deviceNo :: "uint32 \<Rightarrow> Device" where
  "deviceNo i = \<lparr>dev_idx = i, dev_name = [], dev_leds = []\<rparr>"

text \<open>
  The exchange in which the given notifications are pushed and then a reply with the
  given type code and a body of four bytes arrives; the two sweeps that the network
  serves to \<open>restartClient\<close>, and the part of a sweep that it serves to
  \<open>interruptedClient\<close>.
\<close>

definition replyWith :: "(SocketError \<times> byte list) list \<Rightarrow> byte \<Rightarrow> byte \<Rightarrow> Exchange" where
  "replyWith notifications code v =
     \<lparr>pushed = notifications, header_bytes = snd (frameHeader code 4),
      body_bytes = snd (frameBody v)\<rparr>"

definition restartSweep1 :: Sweep where
  "restartSweep1 =
     \<lparr>countExchange = replyWith [] 0 3,
      deviceExchanges =
        [replyWith [] 1 10, replyWith [] 1 11, replyWith [frameHeader 100 0] 1 12],
      sweepDevices = [deviceNo 10, deviceNo 11, deviceNo 12]\<rparr>"

definition restartSweep2 :: Sweep where
  "restartSweep2 =
     \<lparr>countExchange = replyWith [] 0 2,
      deviceExchanges = [replyWith [] 1 20, replyWith [] 1 21],
      sweepDevices = [deviceNo 20, deviceNo 21]\<rparr>"

definition interruptedSweep :: Sweep where
  "interruptedSweep =
     \<lparr>countExchange = replyWith [frameHeader 100 0] 0 2,
      deviceExchanges = [replyWith [] 1 10],
      sweepDevices = [deviceNo 10]\<rparr>"

text \<open>
  The ready client with the flag set on a network where no send succeeds, and what a
  call of \<open>requestDeviceList\<close> leaves of it; what such a call leaves of the ready
  client, to which nothing arrives; and \<open>interruptedClient\<close> on a network where the third
  send fails, and what the call leaves of it.
\<close>

definition sendFailsClient :: Client where
  "sendFailsClient =
     readyClient\<lparr>socket := (socket readyClient)\<lparr>sendScript := sconst SE_Other\<rparr>,
                 isDeviceListOutOfDate := True\<rparr>"

definition sendFailsClient_pass1 :: Client where
  "sendFailsClient_pass1 =
     readyClient\<lparr>socket := (socket readyClient)
       \<lparr>sendScript := sconst SE_Other, ops := [OpSend RequestControllerCount 4]\<rparr>\<rparr>"

definition unsentClient :: Client where
  "unsentClient =
     interruptedClient\<lparr>socket := (socket interruptedClient)
       \<lparr>sendScript := SE_Success ## SE_Success ## sconst SE_Other\<rparr>\<rparr>"

definition unsentClient_pass1 :: Client where
  "unsentClient_pass1 =
     readyClient\<lparr>socket := (socket readyClient)
       \<lparr>sendScript := sconst SE_Other,
        recvScript := sconst (SE_Timeout, []),
        ops :=
          [OpSend RequestControllerCount 4, OpReceive 16, OpReceive 16, OpReceive 4,
           OpSend (RequestControllerData 0 4) 4, OpReceive 16, OpReceive 4,
           OpSend (RequestControllerData 1 4) 4]\<rparr>,
       isDeviceListOutOfDate := True\<rparr>"

definition unansweredClient_pass1 :: Client where
  "unansweredClient_pass1 =
     readyClient\<lparr>socket := (socket readyClient)
       \<lparr>ops := [OpSend RequestControllerCount 4, OpReceive 16]\<rparr>\<rparr>"

section \<open>Properties\<close>

lemmas example_defs =
  le32_def exampleMessageType_def exampleHeader_def exampleU32_def exampleDevice_def
  exampleProtocol_def frameHeader_def frameBody_def quietSocket_def readyClient_def

lemmas socket_defs =
  sock_connect_def sock_disconnect_def sock_setTimeout_def sock_setBlockingMode_def
  sock_send_def sock_receive_def

lemmas probe_defs =
  checkForDeviceUpdates_def checkForUpdateMessageArrival_def enableBlockingAndReturn_def
  disconnect_def sock_setBlockingMode_def sock_receive_def sock_disconnect_def

subsection \<open>The freshness check\<close>

lemma disconnect_client: "snd (disconnect c) = c\<lparr>socket := snd (sock_disconnect (socket c))\<rparr>"
  by (simp add: disconnect_def Let_def split: prod.splits)

text \<open>
  Claim C4. Whenever the out-of-date flag is set, \<open>checkForDeviceUpdates\<close> returns
  \<^verbatim>\<open>OutOfDate\<close> and the client it leaves is the client it was given: no operation is
  added to the trace of the socket, no script is advanced, and the flag and every other
  field are as before.
\<close>

theorem checkForDeviceUpdates_cached:
  "isDeviceListOutOfDate c \<Longrightarrow> checkForDeviceUpdates P c = (US_OutOfDate, c)"
  by (simp add: checkForDeviceUpdates_def)

theorem checkForDeviceUpdates_cached_witness:
  "isDeviceListOutOfDate (readyClient\<lparr>isDeviceListOutOfDate := True\<rparr>) \<and>
   checkForDeviceUpdates exampleProtocol (readyClient\<lparr>isDeviceListOutOfDate := True\<rparr>) =
     (US_OutOfDate, readyClient\<lparr>isDeviceListOutOfDate := True\<rparr>)"
  using checkForDeviceUpdates_cached
    [of "readyClient\<lparr>isDeviceListOutOfDate := True\<rparr>" exampleProtocol]
  by simp

text \<open>
  Claim C9. A newly constructed client has its out-of-date flag set, so
  \<open>checkForDeviceUpdates\<close> on it, before any \<open>connect\<close>, returns \<^verbatim>\<open>OutOfDate\<close> and leaves
  the client, and with it the socket, as constructed.
\<close>

theorem new_Client_is_out_of_date:
  "isDeviceListOutOfDate (new_Client name env) \<and>
   checkForDeviceUpdates P (new_Client name env) = (US_OutOfDate, new_Client name env)"
  by (simp add: checkForDeviceUpdates_def new_Client_def)

text \<open>
  Claim C3, as the claim states it, fails: the status found from the read is returned
  only through \<^verbatim>\<open>enableBlockingAndReturn\<close>. Here the flag is clear, the socket is
  switched to non-blocking mode, the read delivers a \<^verbatim>\<open>DEVICE_LIST_UPDATED\<close> header, and
  the switch back to blocking mode fails: the status is \<^verbatim>\<open>CantRestoreSocket\<close>, not
  \<^verbatim>\<open>OutOfDate\<close>, and the flag is not set.
\<close>

theorem notification_lost_when_restore_fails:
  "\<not> isDeviceListOutOfDate restoreFailsClient \<and>
   isNotification exampleProtocol (shd (recvScript (socket restoreFailsClient))) \<and>
   fst (checkForDeviceUpdates exampleProtocol restoreFailsClient) = US_CantRestoreSocket \<and>
   \<not> isDeviceListOutOfDate (snd (checkForDeviceUpdates exampleProtocol restoreFailsClient)) \<and>
   newOps restoreFailsClient (snd (checkForDeviceUpdates exampleProtocol restoreFailsClient)) =
     [OpSetBlockingMode False, OpReceive Header_size, OpSetBlockingMode True, OpDisconnect]"
  by (simp add: probe_defs example_defs restoreFailsClient_def isNotification_def newOps_def)

text \<open>
  Claim C3, amended. Let the out-of-date flag be clear and the switch to non-blocking mode
  succeed, so that the header is read, with the outcome \<open>(st, buf)\<close>. If the switch back
  to blocking mode succeeds, the outcome of the read decides the status: \<^verbatim>\<open>WouldBlock\<close>
  gives \<^verbatim>\<open>UpToDate\<close>, \<^verbatim>\<open>ConnectionClosed\<close> gives \<^verbatim>\<open>ConnectionClosed\<close>, any other failure
  gives \<^verbatim>\<open>OtherSystemError\<close> (the spec's \<^verbatim>\<open>OtherError\<close>), a header of type
  \<^verbatim>\<open>DEVICE_LIST_UPDATED\<close> gives \<^verbatim>\<open>OutOfDate\<close>, and any other header, also one that
  \<^verbatim>\<open>Header::deserialize\<close> rejects, gives \<^verbatim>\<open>UnexpectedMessage\<close>; the flag is set
  afterwards exactly when the status is \<^verbatim>\<open>OutOfDate\<close>, and the socket has seen the two
  mode switches and the one read. If the switch back fails, the status is
  \<^verbatim>\<open>CantRestoreSocket\<close> whatever was read, the flag stays clear and the socket has been
  disconnected.
\<close>

theorem checkForDeviceUpdates_read_status:
  assumes "\<not> isDeviceListOutOfDate c"
    and "shd (setBlockingScript (socket c))"
    and "shd (recvScript (socket c)) = (st, buf)"
  shows "(if shd (stl (setBlockingScript (socket c)))
          then
            fst (checkForDeviceUpdates P c) =
              (if st = SE_WouldBlock then US_UpToDate
               else if st = SE_ConnectionClosed then US_ConnectionClosed
               else if st \<noteq> SE_Success then US_OtherSystemError
               else case Header_deserialize P buf of
                   None \<Rightarrow> US_UnexpectedMessage
                 | Some header \<Rightarrow>
                     if message_type header = DEVICE_LIST_UPDATED then US_OutOfDate
                     else US_UnexpectedMessage) \<and>
            isDeviceListOutOfDate (snd (checkForDeviceUpdates P c)) =
              (fst (checkForDeviceUpdates P c) = US_OutOfDate) \<and>
            newOps c (snd (checkForDeviceUpdates P c)) =
              [OpSetBlockingMode False, OpReceive Header_size, OpSetBlockingMode True]
          else
            fst (checkForDeviceUpdates P c) = US_CantRestoreSocket \<and>
            \<not> isDeviceListOutOfDate (snd (checkForDeviceUpdates P c)) \<and>
            \<not> connected (socket (snd (checkForDeviceUpdates P c))) \<and>
            newOps c (snd (checkForDeviceUpdates P c)) =
              [OpSetBlockingMode False, OpReceive Header_size, OpSetBlockingMode True,
               OpDisconnect])"
  using assms
  by (simp add: checkForDeviceUpdates_def checkForUpdateMessageArrival_def
      enableBlockingAndReturn_def disconnect_client sock_setBlockingMode_def sock_receive_def
      sock_disconnect_def newOps_def Let_def split: option.splits)

theorem checkForDeviceUpdates_read_status_witness:
  "\<not> isDeviceListOutOfDate pendingNotificationClient \<and>
   fst (checkForDeviceUpdates exampleProtocol pendingNotificationClient) = US_OutOfDate \<and>
   isDeviceListOutOfDate (snd (checkForDeviceUpdates exampleProtocol pendingNotificationClient)) \<and>
   newOps pendingNotificationClient
       (snd (checkForDeviceUpdates exampleProtocol pendingNotificationClient)) =
     [OpSetBlockingMode False, OpReceive Header_size, OpSetBlockingMode True]"
  using checkForDeviceUpdates_read_status
    [of pendingNotificationClient SE_Success "snd (frameHeader 100 0)" exampleProtocol]
  by (simp add: example_defs pendingNotificationClient_def)

text \<open>
  Claim C10. Whatever \<open>checkForDeviceUpdates\<close> returns, it has disconnected the socket
  exactly when it returns \<^verbatim>\<open>CantRestoreSocket\<close>. When it returns \<^verbatim>\<open>UnexpectedMessage\<close>,
  the connection state of the socket is what it was, the socket is in blocking mode, the
  out-of-date flag is unchanged, the header that was read is gone from the inbound
  stream, and the socket has seen the two mode switches and the one read of 16 bytes.
\<close>

theorem unexpected_message_no_disconnect:
  assumes "checkForDeviceUpdates P c = (st, c')"
  shows "(OpDisconnect \<in> set (newOps c c')) = (st = US_CantRestoreSocket) \<and>
         (st = US_UnexpectedMessage \<longrightarrow>
            connected (socket c') = connected (socket c) \<and>
            blockingMode (socket c') \<and>
            isDeviceListOutOfDate c' = isDeviceListOutOfDate c \<and>
            recvScript (socket c') = stl (recvScript (socket c)) \<and>
            newOps c c' = [OpSetBlockingMode False, OpReceive Header_size, OpSetBlockingMode True])"
  using assms
  by (auto simp add: probe_defs newOps_def Let_def split: option.splits if_splits)

theorem unexpected_message_no_disconnect_witness:
  "checkForDeviceUpdates exampleProtocol unsolicitedReplyClient =
     (US_UnexpectedMessage,
      readyClient\<lparr>socket := (socket readyClient)
        \<lparr>recvScript := frameBody 2 ## sconst (SE_Timeout, []),
         ops := [OpSetBlockingMode False, OpReceive Header_size, OpSetBlockingMode True]\<rparr>\<rparr>) \<and>
   connected (socket (snd (checkForDeviceUpdates exampleProtocol unsolicitedReplyClient))) \<and>
   OpDisconnect \<notin>
     set (newOps unsolicitedReplyClient
            (snd (checkForDeviceUpdates exampleProtocol unsolicitedReplyClient)))"
proof -
  have run: "checkForDeviceUpdates exampleProtocol unsolicitedReplyClient =
     (US_UnexpectedMessage,
      readyClient\<lparr>socket := (socket readyClient)
        \<lparr>recvScript := frameBody 2 ## sconst (SE_Timeout, []),
         ops := [OpSetBlockingMode False, OpReceive Header_size, OpSetBlockingMode True]\<rparr>\<rparr>)"
    by (simp add: probe_defs example_defs unsolicitedReplyClient_def)
  from unexpected_message_no_disconnect [OF run] run show ?thesis
    by (simp add: example_defs unsolicitedReplyClient_def)
qed

subsection \<open>Waiting for a reply\<close>

text \<open>
  One turn of the loop of \<open>awaitMessage\<close> on a notification, and what it does on the
  first header that is not one.
\<close>

lemma awaitMessage_notification:
  assumes "isNotification P (shd (recvScript (socket c)))"
  shows "awaitMessage P M c =
         awaitMessage P M
           (c\<lparr>socket := (socket c)\<lparr>recvScript := stl (recvScript (socket c)),
                                   ops := ops (socket c) @ [OpReceive Header_size]\<rparr>,
              isDeviceListOutOfDate := True\<rparr>)"
  using assms
  by (subst awaitMessage.simps)
     (simp add: isNotification_def sock_receive_def split: option.splits)

lemma awaitMessage_reply:
  assumes "shd (recvScript (socket c)) = (SE_Success, hbuf)"
    and "Header_deserialize P hbuf = Some header"
    and "message_type header \<noteq> DEVICE_LIST_UPDATED"
  shows "awaitMessage P M c =
         (let c1 = afterHeaders 1 0 c in
          if message_type header \<noteq> replyType M then Some (Inl RS_InvalidReply, c1)
          else
            let c2 = afterBody (unat (message_size header)) c1;
                body = shd (recvScript (socket c1))
            in if fst body \<noteq> SE_Success then Some (Inl (recvFailure (fst body)), c2)
               else case deserializeBody M (negotiatedProtocolVersion c) (snd body) of
                   None \<Rightarrow> Some (Inl RS_InvalidReply, c2)
                 | Some message \<Rightarrow> Some (Inr message, c2))"
  using assms
  by (subst awaitMessage.simps)
     (simp add: sock_receive_def afterHeaders_def afterBody_def Let_def split: option.splits)


lemma afterHeaders_0: "afterHeaders 0 0 c = c"
  by (simp add: afterHeaders_def)

lemma awaitMessage_skips:
  "\<forall>i<n. isNotification P (recvScript (socket c) !! i) \<Longrightarrow>
   awaitMessage P M c = awaitMessage P M (afterHeaders n n c)"
proof (induction n arbitrary: c)
  case 0
  show ?case by (simp add: afterHeaders_0)
next
  case (Suc n)
  let ?c' = "c\<lparr>socket := (socket c)\<lparr>recvScript := stl (recvScript (socket c)),
                                   ops := ops (socket c) @ [OpReceive Header_size]\<rparr>,
              isDeviceListOutOfDate := True\<rparr>"
  from Suc.prems have "isNotification P (recvScript (socket c) !! 0)" by blast
  then have first: "awaitMessage P M c = awaitMessage P M ?c'"
    by (simp add: awaitMessage_notification)
  from Suc.prems have "\<forall>i<n. isNotification P (recvScript (socket ?c') !! i)"
    by auto
  then have rest: "awaitMessage P M ?c' = awaitMessage P M (afterHeaders n n ?c')"
    by (rule Suc.IH)
  have "afterHeaders n n ?c' = afterHeaders (Suc n) (Suc n) c"
    by (simp add: afterHeaders_def)
  with first rest show ?case by simp
qed

lemma awaitMessage_after_notifications:
  assumes "\<forall>i<n. isNotification P (recvScript (socket c) !! i)"
    and "recvScript (socket c) !! n = (SE_Success, hbuf)"
    and "Header_deserialize P hbuf = Some header"
    and "message_type header \<noteq> DEVICE_LIST_UPDATED"
  shows "awaitMessage P M c =
         (let c1 = afterHeaders (Suc n) n c in
          if message_type header \<noteq> replyType M then Some (Inl RS_InvalidReply, c1)
          else
            let c2 = afterBody (unat (message_size header)) c1;
                body = shd (recvScript (socket c1))
            in if fst body \<noteq> SE_Success then Some (Inl (recvFailure (fst body)), c2)
               else case deserializeBody M (negotiatedProtocolVersion c) (snd body) of
                   None \<Rightarrow> Some (Inl RS_InvalidReply, c2)
                 | Some message \<Rightarrow> Some (Inr message, c2))"
proof -
  have hd: "shd (recvScript (socket (afterHeaders n n c))) = (SE_Success, hbuf)"
    using assms(2) by (simp add: afterHeaders_def)
  have eq: "afterHeaders 1 0 (afterHeaders n n c) = afterHeaders (Suc n) n c"
    by (simp add: afterHeaders_def replicate_append_same)
  have ver: "negotiatedProtocolVersion (afterHeaders n n c) = negotiatedProtocolVersion c"
    by (simp add: afterHeaders_def)
  show ?thesis
    unfolding awaitMessage_skips [OF assms(1), of M]
      awaitMessage_reply [OF hd assms(3) assms(4), of M] eq ver ..
qed

text \<open>
  Claim C1. Let the inbound stream deliver \<open>n\<close> \<^verbatim>\<open>DEVICE_LIST_UPDATED\<close> headers and then a
  header of another type that \<^verbatim>\<open>Header::deserialize\<close> accepts. If that type is the
  expected one, the body is received and \<^verbatim>\<open>deserializeBody\<close> decodes it to \<open>message\<close>,
  then \<open>awaitMessage\<close> returns \<open>message\<close> with \<^verbatim>\<open>Success\<close> (\<open>Inr message\<close>). If the type
  is any other, it returns \<^verbatim>\<open>InvalidReply\<close>. In both cases the socket has been read
  \<open>n + 1\<close> times for a header, and in the first once more for the body of the reply, so
  no body is read for a notification; the out-of-date flag is set if \<open>n > 0\<close> and is
  otherwise what it was.
\<close>

theorem awaitMessage_passes_notifications:
  assumes "\<forall>i<n. isNotification P (recvScript (socket c) !! i)"
    and "recvScript (socket c) !! n = (SE_Success, hbuf)"
    and "Header_deserialize P hbuf = Some header"
    and "message_type header \<noteq> DEVICE_LIST_UPDATED"
  shows "(message_type header = replyType M \<and>
          recvScript (socket c) !! Suc n = (SE_Success, bbuf) \<and>
          deserializeBody M (negotiatedProtocolVersion c) bbuf = Some message \<longrightarrow>
            awaitMessage P M c =
              Some (Inr message, afterBody (unat (message_size header)) (afterHeaders (Suc n) n c))) \<and>
         (message_type header \<noteq> replyType M \<longrightarrow>
            awaitMessage P M c = Some (Inl RS_InvalidReply, afterHeaders (Suc n) n c))"
proof -
  have "shd (recvScript (socket (afterHeaders (Suc n) n c))) = recvScript (socket c) !! Suc n"
    by (simp add: afterHeaders_def)
  then show ?thesis
    by (simp add: awaitMessage_after_notifications [OF assms, of M] Let_def)
qed

theorem awaitMessage_passes_notifications_witness:
  "awaitMessage exampleProtocol (ReplyProtocolVersion exampleProtocol) notifiedClient =
     Some (Inr 3,
           readyClient\<lparr>socket := (socket readyClient)
               \<lparr>recvScript := sconst (SE_Timeout, []),
                ops := [OpReceive 16, OpReceive 16, OpReceive 16, OpReceive 4]\<rparr>,
             isDeviceListOutOfDate := True\<rparr>) \<and>
   awaitMessage exampleProtocol (ReplyControllerCount exampleProtocol) notifiedClient =
     Some (Inl RS_InvalidReply,
           readyClient\<lparr>socket := (socket readyClient)
               \<lparr>recvScript := frameBody 3 ## sconst (SE_Timeout, []),
                ops := [OpReceive 16, OpReceive 16, OpReceive 16]\<rparr>,
             isDeviceListOutOfDate := True\<rparr>)"
proof -
  let ?h = "\<lparr>device_idx = 0, message_type = REPLY_PROTOCOL_VERSION, message_size = 4\<rparr>"
  let ?n = "Suc (Suc 0)"
  have skipped:
    "\<forall>i<?n. isNotification exampleProtocol (recvScript (socket notifiedClient) !! i)"
    by (simp add: example_defs notifiedClient_def isNotification_def All_less_Suc)
  have hdr: "recvScript (socket notifiedClient) !! ?n = (SE_Success, snd (frameHeader 40 4))"
    by (simp add: example_defs notifiedClient_def)
  have bdy: "recvScript (socket notifiedClient) !! Suc ?n = (SE_Success, snd (frameBody 3))"
    by (simp add: example_defs notifiedClient_def)
  have parsed: "Header_deserialize exampleProtocol (snd (frameHeader 40 4)) = Some ?h"
    by (simp add: example_defs notifiedClient_def)
  have other: "message_type ?h \<noteq> DEVICE_LIST_UPDATED"
    by simp
  have decoded: "deserializeBody (ReplyProtocolVersion exampleProtocol)
      (negotiatedProtocolVersion notifiedClient) (snd (frameBody 3)) = Some 3"
    by (simp add: example_defs notifiedClient_def ReplyProtocolVersion_def)
  have expected: "message_type ?h = replyType (ReplyProtocolVersion exampleProtocol)"
    by (simp add: ReplyProtocolVersion_def)
  have unexpected: "message_type ?h \<noteq> replyType (ReplyControllerCount exampleProtocol)"
    by (simp add: ReplyControllerCount_def)
  have after_body: "afterBody (unat (message_size ?h)) (afterHeaders (Suc ?n) ?n notifiedClient) =
      readyClient\<lparr>socket := (socket readyClient)
               \<lparr>recvScript := sconst (SE_Timeout, []),
                ops := [OpReceive 16, OpReceive 16, OpReceive 16, OpReceive 4]\<rparr>,
             isDeviceListOutOfDate := True\<rparr>"
    by (simp add: example_defs notifiedClient_def afterHeaders_def afterBody_def Header_size_def)
  have after_headers: "afterHeaders (Suc ?n) ?n notifiedClient =
      readyClient\<lparr>socket := (socket readyClient)
               \<lparr>recvScript := frameBody 3 ## sconst (SE_Timeout, []),
                ops := [OpReceive 16, OpReceive 16, OpReceive 16]\<rparr>,
             isDeviceListOutOfDate := True\<rparr>"
    by (simp add: example_defs notifiedClient_def afterHeaders_def Header_size_def)
  note both = awaitMessage_passes_notifications [OF skipped hdr parsed other]
  have reply: "awaitMessage exampleProtocol (ReplyProtocolVersion exampleProtocol) notifiedClient =
      Some (Inr 3, afterBody (unat (message_size ?h)) (afterHeaders (Suc ?n) ?n notifiedClient))"
    using both [of "ReplyProtocolVersion exampleProtocol" "snd (frameBody 3)" 3]
      expected bdy decoded by blast
  have invalid: "awaitMessage exampleProtocol (ReplyControllerCount exampleProtocol) notifiedClient =
      Some (Inl RS_InvalidReply, afterHeaders (Suc ?n) ?n notifiedClient)"
    using both [of "ReplyControllerCount exampleProtocol" "snd (frameBody 3)" 3]
      unexpected by blast
  from reply [unfolded after_body] invalid [unfolded after_headers] show ?thesis
    by (rule conjI)
qed

subsection \<open>Connecting\<close>

lemma sock_disconnect_closed: "\<not> connected (snd (sock_disconnect s))"
  by (simp add: sock_disconnect_def)

text \<open>
  Claim C8. On a disconnected client whose socket connects and sends the version
  request, let the server answer, after any number of notifications, with a
  \<^verbatim>\<open>REPLY_PROTOCOL_VERSION\<close> whose body decodes to version 0. Then \<open>connect\<close> returns
  \<^verbatim>\<open>VersionNotSupported\<close>; the last operation on the socket is \<^verbatim>\<open>disconnect\<close> and the
  socket is not connected, as before the call; the name and the negotiated version of
  the client are unchanged, and no client name has been sent.
\<close>

theorem connect_rejects_version_0:
  assumes "\<not> connected (socket c)"
    and "shd (connectScript (socket c)) = SE_Success"
    and "shd (sendScript (socket c)) = SE_Success"
    and "\<forall>i<n. isNotification P (recvScript (socket c) !! i)"
    and "recvScript (socket c) !! n = (SE_Success, hbuf)"
    and "Header_deserialize P hbuf = Some header"
    and "message_type header = REPLY_PROTOCOL_VERSION"
    and "recvScript (socket c) !! Suc n = (SE_Success, bbuf)"
    and "ProtocolVersion_deserializeBody P (negotiatedProtocolVersion c) bbuf = Some 0"
  shows "\<exists>c'. connect P host port c = Some (CS_VersionNotSupported, c') \<and>
           \<not> connected (socket c') \<and>
           newOps c c' =
             [OpConnect host port, OpSetTimeout 500,
              OpSend (RequestProtocolVersion (implementedProtocolVersion P))
                     (negotiatedProtocolVersion c)] @
             replicate (Suc n) (OpReceive Header_size) @
             [OpReceive (unat (message_size header)), OpDisconnect] \<and>
           clientName c' = clientName c \<and>
           negotiatedProtocolVersion c' = negotiatedProtocolVersion c \<and>
           isDeviceListOutOfDate c' = (isDeviceListOutOfDate c \<or> 0 < n)"
proof -
  define c3 where "c3 =
    snd (sendMessage (RequestProtocolVersion (implementedProtocolVersion P))
      (c\<lparr>socket := snd (sock_setTimeout 500 (snd (sock_connect host port (socket c))))\<rparr>))"
  have rs: "recvScript (socket c3) = recvScript (socket c)"
    and ver: "negotiatedProtocolVersion c3 = negotiatedProtocolVersion c"
    using assms(1) by (simp_all add: c3_def sendMessage_def socket_defs)
  have await: "awaitMessage P (ReplyProtocolVersion P) c3 =
      Some (Inr 0, afterBody (unat (message_size header)) (afterHeaders (Suc n) n c3))"
    using awaitMessage_after_notifications [of n P c3 hbuf header "ReplyProtocolVersion P"]
      assms(4-9)
    by (simp add: rs ver ReplyProtocolVersion_def afterHeaders_def Let_def)
  let ?c4 = "afterBody (unat (message_size header)) (afterHeaders (Suc n) n c3)"
  let ?c' = "?c4\<lparr>socket := snd (sock_disconnect (socket ?c4))\<rparr>"
  have run: "connect P host port c = Some (CS_VersionNotSupported, ?c')"
    using assms(1-3) await
    by (simp add: connect_def c3_def sendMessage_def socket_defs Let_def)
  have obs: "newOps c ?c' =
             [OpConnect host port, OpSetTimeout 500,
              OpSend (RequestProtocolVersion (implementedProtocolVersion P))
                     (negotiatedProtocolVersion c)] @
             replicate (Suc n) (OpReceive Header_size) @
             [OpReceive (unat (message_size header)), OpDisconnect]"
    using assms(1)
    by (simp add: newOps_def c3_def sendMessage_def socket_defs afterHeaders_def afterBody_def)
  have rest: "clientName ?c' = clientName c"
    "negotiatedProtocolVersion ?c' = negotiatedProtocolVersion c"
    "isDeviceListOutOfDate ?c' = (isDeviceListOutOfDate c \<or> 0 < n)"
    by (simp_all add: c3_def sendMessage_def socket_defs afterHeaders_def afterBody_def)
  from run obs rest sock_disconnect_closed [of "socket ?c4"] show ?thesis
    by (intro exI [of _ ?c']) simp
qed

theorem connect_rejects_version_0_witness:
  "fst (the (connect exampleProtocol ''127.0.0.1'' 6742 legacyServerClient)) =
     CS_VersionNotSupported \<and>
   \<not> connected (socket (snd (the (connect exampleProtocol ''127.0.0.1'' 6742 legacyServerClient)))) \<and>
   ops (socket (snd (the (connect exampleProtocol ''127.0.0.1'' 6742 legacyServerClient)))) =
     [OpConnect ''127.0.0.1'' 6742, OpSetTimeout 500, OpSend (RequestProtocolVersion 4) 0,
      OpReceive 16, OpReceive 16, OpReceive 4, OpDisconnect] \<and>
   negotiatedProtocolVersion
     (snd (the (connect exampleProtocol ''127.0.0.1'' 6742 legacyServerClient))) = 0"
proof -
  let ?h = "\<lparr>device_idx = 0, message_type = REPLY_PROTOCOL_VERSION, message_size = 4\<rparr>"
  have closed: "\<not> connected (socket legacyServerClient)"
    and tcp: "shd (connectScript (socket legacyServerClient)) = SE_Success"
    and sent: "shd (sendScript (socket legacyServerClient)) = SE_Success"
    by (simp_all add: example_defs legacyServerClient_def new_Client_def new_TcpSocket_def)
  have skipped:
    "\<forall>i<Suc 0. isNotification exampleProtocol (recvScript (socket legacyServerClient) !! i)"
    by (simp add: example_defs legacyServerClient_def new_Client_def new_TcpSocket_def
        isNotification_def)
  have hdr: "recvScript (socket legacyServerClient) !! Suc 0 = (SE_Success, snd (frameHeader 40 4))"
    and bdy: "recvScript (socket legacyServerClient) !! Suc (Suc 0) = (SE_Success, snd (frameBody 0))"
    by (simp_all add: example_defs legacyServerClient_def new_Client_def new_TcpSocket_def)
  have parsed: "Header_deserialize exampleProtocol (snd (frameHeader 40 4)) = Some ?h"
    by (simp add: example_defs legacyServerClient_def)
  have kind: "message_type ?h = REPLY_PROTOCOL_VERSION"
    by simp
  have decoded: "ProtocolVersion_deserializeBody exampleProtocol
      (negotiatedProtocolVersion legacyServerClient) (snd (frameBody 0)) = Some 0"
    by (simp add: example_defs legacyServerClient_def)
  have start: "ops (socket legacyServerClient) = []"
    "negotiatedProtocolVersion legacyServerClient = 0"
    "implementedProtocolVersion exampleProtocol = 4"
    by (simp_all add: example_defs legacyServerClient_def new_Client_def new_TcpSocket_def)
  from connect_rejects_version_0 [OF closed tcp sent skipped hdr parsed kind bdy decoded,
      of "''127.0.0.1''" 6742]
  obtain c' where run: "connect exampleProtocol ''127.0.0.1'' 6742 legacyServerClient =
        Some (CS_VersionNotSupported, c')"
    and off: "\<not> connected (socket c')"
    and trace: "newOps legacyServerClient c' =
        [OpConnect ''127.0.0.1'' 6742, OpSetTimeout 500, OpSend (RequestProtocolVersion 4) 0] @
        replicate (Suc (Suc 0)) (OpReceive Header_size) @
        [OpReceive (unat (message_size ?h)), OpDisconnect]"
    and ver: "negotiatedProtocolVersion c' = 0"
    unfolding start by blast
  from trace have "ops (socket c') =
      [OpConnect ''127.0.0.1'' 6742, OpSetTimeout 500, OpSend (RequestProtocolVersion 4) 0,
       OpReceive 16, OpReceive 16, OpReceive 4, OpDisconnect]"
    by (simp add: newOps_def start Header_size_def)
  with run off ver show ?thesis by simp
qed

subsection \<open>Requests that only send\<close>

lemma sendMessage_eq:
  "sendMessage message c = (shd (sendScript (socket c)) = SE_Success, afterSend message c)"
  by (simp add: sendMessage_def sock_send_def afterSend_def)

text \<open>
  Claim C7, as the claim states it, fails: the vector of colours is built before the
  message is sent. On the ready client, with room for \<open>2 ^ 30\<close> colours, \<open>setZoneColor\<close> on
  a zone of \<open>0xFFFFFFFF\<close> LEDs sends nothing and returns \<^verbatim>\<open>UnexpectedError\<close>, which is
  neither \<^verbatim>\<open>Success\<close> nor \<^verbatim>\<open>SendRequestFailed\<close>, although a send would have succeeded.
\<close>

theorem setZoneColor_huge_zone:
  "connected (socket readyClient) \<and>
   shd (sendScript (socket readyClient)) = SE_Success \<and>
   setZoneColor 1073741824
       \<lparr>zone_parentIdx = 0, zone_idx = 0, zone_leds_count = 0xFFFFFFFF\<rparr>
       \<lparr>color_r = 0xAA, color_g = 0xBB, color_b = 0xCC\<rparr> readyClient =
     (RS_UnexpectedError, readyClient)"
  by (simp add: setZoneColor_def setZoneColor_impl_def new_vector_def example_defs)

text \<open>
  Claim C7, amended. On a connected client each of the ten mutating operations, unless it
  throws while it prepares its message, hands that one message to \<^verbatim>\<open>send\<close> and does
  nothing else: the client it leaves differs from the one it was given by that one
  send, so nothing has been received and no reply has been waited for; it returns
  \<^verbatim>\<open>Success\<close> if the send succeeded and \<^verbatim>\<open>SendRequestFailed\<close> if it did not.
  \<open>setDeviceColor\<close> and \<open>setZoneColor\<close> throw when the vector of colours cannot be built
  (more LEDs than \<open>capacity\<close>); they then return \<^verbatim>\<open>UnexpectedError\<close> and leave the client
  as it was, so nothing has been sent.
\<close>

theorem mutating_operations_send_only:
  assumes "connected (socket c)"
  shows "(if length (dev_leds dev) \<le> capacity
          then sentOnly (UpdateLEDs (dev_idx dev) (replicate (length (dev_leds dev)) color)) c
                 (setDeviceColor capacity dev color c)
          else setDeviceColor capacity dev color c = (RS_UnexpectedError, c)) \<and>
         (if unat (zone_leds_count zone) \<le> capacity
          then sentOnly (UpdateZoneLEDs (zone_parentIdx zone) (zone_idx zone)
                           (replicate (unat (zone_leds_count zone)) color)) c
                 (setZoneColor capacity zone color c)
          else setZoneColor capacity zone color c = (RS_UnexpectedError, c)) \<and>
         sentOnly (ResizeZone (zone_parentIdx zone) (zone_idx zone) newSize) c
           (setZoneSize zone newSize c) \<and>
         sentOnly (UpdateSingleLED (led_parentIdx led) (led_idx led) color) c
           (setLEDColor led color c) \<and>
         sentOnly (SetCustomMode (dev_idx dev)) c (switchToCustomMode dev c) \<and>
         sentOnly (UpdateMode (dev_idx dev) (mode_idx mode) mode (negotiatedProtocolVersion c)) c
           (changeMode dev mode c) \<and>
         sentOnly (SaveMode (dev_idx dev) (mode_idx mode) mode (negotiatedProtocolVersion c)) c
           (saveMode dev mode c) \<and>
         sentOnly (RequestSaveProfile profileName) c (saveProfile profileName c) \<and>
         sentOnly (RequestLoadProfile profileName) c (loadProfile profileName c) \<and>
         (\<exists>m. sentOnly m c (deleteProfile profileName c))"
proof -
  have "if length (dev_leds dev) \<le> capacity
        then sentOnly (UpdateLEDs (dev_idx dev) (replicate (length (dev_leds dev)) color)) c
               (setDeviceColor capacity dev color c)
        else setDeviceColor capacity dev color c = (RS_UnexpectedError, c)"
    using assms
    by (simp add: setDeviceColor_def setDeviceColor_impl_def new_vector_def sendMessage_eq
        sentOnly_def)
  moreover have "if unat (zone_leds_count zone) \<le> capacity
        then sentOnly (UpdateZoneLEDs (zone_parentIdx zone) (zone_idx zone)
                         (replicate (unat (zone_leds_count zone)) color)) c
               (setZoneColor capacity zone color c)
        else setZoneColor capacity zone color c = (RS_UnexpectedError, c)"
    using assms
    by (simp add: setZoneColor_def setZoneColor_impl_def new_vector_def sendMessage_eq
        sentOnly_def)
  moreover have "sentOnly (ResizeZone (zone_parentIdx zone) (zone_idx zone) newSize) c
          (setZoneSize zone newSize c)"
    using assms by (simp add: setZoneSize_def sendMessage_eq sentOnly_def)
  moreover have "sentOnly (UpdateSingleLED (led_parentIdx led) (led_idx led) color) c
          (setLEDColor led color c)"
    using assms by (simp add: setLEDColor_def sendMessage_eq sentOnly_def)
  moreover have "sentOnly (SetCustomMode (dev_idx dev)) c (switchToCustomMode dev c)"
    using assms by (simp add: switchToCustomMode_def sendMessage_eq sentOnly_def)
  moreover have "sentOnly (UpdateMode (dev_idx dev) (mode_idx mode) mode
            (negotiatedProtocolVersion c)) c (changeMode dev mode c)"
    using assms by (simp add: changeMode_def sendMessage_eq sentOnly_def)
  moreover have "sentOnly (SaveMode (dev_idx dev) (mode_idx mode) mode
            (negotiatedProtocolVersion c)) c (saveMode dev mode c)"
    using assms by (simp add: saveMode_def sendMessage_eq sentOnly_def)
  moreover have "sentOnly (RequestSaveProfile profileName) c (saveProfile profileName c)"
    using assms by (simp add: saveProfile_def sendMessage_eq sentOnly_def)
  moreover have "sentOnly (RequestLoadProfile profileName) c (loadProfile profileName c)"
    using assms by (simp add: loadProfile_def sendMessage_eq sentOnly_def)
  moreover have "\<exists>m. sentOnly m c (deleteProfile profileName c)"
    using assms by (auto simp add: deleteProfile_def sendMessage_eq sentOnly_def)
  ultimately show ?thesis by blast
qed

theorem mutating_operations_send_only_witness:
  "connected (socket readyClient) \<and>
   setLEDColor \<lparr>led_parentIdx = 1, led_idx = 5\<rparr>
       \<lparr>color_r = 0xAA, color_g = 0xBB, color_b = 0xCC\<rparr> readyClient =
     (RS_Success,
      readyClient\<lparr>socket := (socket readyClient)
        \<lparr>ops := [OpSend (UpdateSingleLED 1 5
                            \<lparr>color_r = 0xAA, color_g = 0xBB, color_b = 0xCC\<rparr>) 4]\<rparr>\<rparr>) \<and>
   setZoneColor 1073741824 \<lparr>zone_parentIdx = 1, zone_idx = 2, zone_leds_count = 3\<rparr>
       \<lparr>color_r = 0xAA, color_g = 0xBB, color_b = 0xCC\<rparr> readyClient =
     (RS_Success,
      readyClient\<lparr>socket := (socket readyClient)
        \<lparr>ops := [OpSend (UpdateZoneLEDs 1 2
                            [\<lparr>color_r = 0xAA, color_g = 0xBB, color_b = 0xCC\<rparr>,
                             \<lparr>color_r = 0xAA, color_g = 0xBB, color_b = 0xCC\<rparr>,
                             \<lparr>color_r = 0xAA, color_g = 0xBB, color_b = 0xCC\<rparr>]) 4]\<rparr>\<rparr>) \<and>
   setZoneColor 1073741824 \<lparr>zone_parentIdx = 1, zone_idx = 2, zone_leds_count = 0xFFFFFFFF\<rparr>
       \<lparr>color_r = 0xAA, color_g = 0xBB, color_b = 0xCC\<rparr> readyClient =
     (RS_UnexpectedError, readyClient) \<and>
   saveProfile ''night''
       (readyClient\<lparr>socket := (socket readyClient)\<lparr>sendScript := sconst SE_Other\<rparr>\<rparr>) =
     (RS_SendRequestFailed,
      readyClient\<lparr>socket := (socket readyClient)
        \<lparr>sendScript := sconst SE_Other, ops := [OpSend (RequestSaveProfile ''night'') 4]\<rparr>\<rparr>)"
proof -
  let ?col = "\<lparr>color_r = 0xAA, color_g = 0xBB, color_b = 0xCC\<rparr>"
  let ?failing = "readyClient\<lparr>socket := (socket readyClient)\<lparr>sendScript := sconst SE_Other\<rparr>\<rparr>"
  have on: "connected (socket readyClient)" "connected (socket ?failing)"
    by (simp_all add: example_defs)
  note small = mutating_operations_send_only [OF on(1),
      where led = "\<lparr>led_parentIdx = 1, led_idx = 5\<rparr>" and color = ?col
        and capacity = 1073741824
        and zone = "\<lparr>zone_parentIdx = 1, zone_idx = 2, zone_leds_count = 3\<rparr>"]
  note huge = mutating_operations_send_only [OF on(1),
      where color = ?col and capacity = 1073741824
        and zone = "\<lparr>zone_parentIdx = 1, zone_idx = 2, zone_leds_count = 0xFFFFFFFF\<rparr>"]
  note failed = mutating_operations_send_only [OF on(2), where profileName = "''night''"]
  have three: "replicate (3 :: nat) x = [x, x, x]" for x :: Color
    by (simp add: numeral_3_eq_3)
  from small [THEN conjunct2, THEN conjunct2, THEN conjunct2, THEN conjunct1]
  have led: "setLEDColor \<lparr>led_parentIdx = 1, led_idx = 5\<rparr> ?col readyClient =
      (RS_Success, afterSend (UpdateSingleLED 1 5 ?col) readyClient)"
    by (simp add: sentOnly_def prod_eq_iff example_defs)
  from small [THEN conjunct2, THEN conjunct1]
  have zone: "setZoneColor 1073741824
        \<lparr>zone_parentIdx = 1, zone_idx = 2, zone_leds_count = 3\<rparr> ?col readyClient =
      (RS_Success, afterSend (UpdateZoneLEDs 1 2 [?col, ?col, ?col]) readyClient)"
    by (simp add: sentOnly_def prod_eq_iff three example_defs)
  from huge [THEN conjunct2, THEN conjunct1]
  have thrown: "setZoneColor 1073741824
        \<lparr>zone_parentIdx = 1, zone_idx = 2, zone_leds_count = 0xFFFFFFFF\<rparr> ?col readyClient =
      (RS_UnexpectedError, readyClient)"
    by simp
  from failed [THEN conjunct2, THEN conjunct2, THEN conjunct2, THEN conjunct2,
      THEN conjunct2, THEN conjunct2, THEN conjunct2, THEN conjunct1]
  have profile: "saveProfile ''night'' ?failing =
      (RS_SendRequestFailed, afterSend (RequestSaveProfile ''night'') ?failing)"
    by (simp add: sentOnly_def prod_eq_iff example_defs)
  have after: "afterSend (UpdateSingleLED 1 5 ?col) readyClient =
      readyClient\<lparr>socket := (socket readyClient)
        \<lparr>ops := [OpSend (UpdateSingleLED 1 5 ?col) 4]\<rparr>\<rparr>"
    "afterSend (UpdateZoneLEDs 1 2 [?col, ?col, ?col]) readyClient =
      readyClient\<lparr>socket := (socket readyClient)
        \<lparr>ops := [OpSend (UpdateZoneLEDs 1 2 [?col, ?col, ?col]) 4]\<rparr>\<rparr>"
    "afterSend (RequestSaveProfile ''night'') ?failing =
      readyClient\<lparr>socket := (socket readyClient)
        \<lparr>sendScript := sconst SE_Other, ops := [OpSend (RequestSaveProfile ''night'') 4]\<rparr>\<rparr>"
    by (simp_all add: afterSend_def example_defs)
  from on(1) led zone thrown profile show ?thesis
    unfolding after by (intro conjI)
qed

text \<open>
  Claim C5 fails on the code: \<open>deleteProfile\<close> sends the message that \<open>loadProfile\<close>
  sends. On the ready client, \<open>deleteProfile\<close> of the profile \<open>night\<close> sends
  \<^verbatim>\<open>RequestLoadProfile\<close>, whose type is \<^verbatim>\<open>REQUEST_LOAD_PROFILE\<close>, and leaves exactly what
  \<open>loadProfile\<close> leaves.
\<close>

theorem deleteProfile_sends_load_profile:
  "deleteProfile ''night'' readyClient =
     (RS_Success,
      readyClient\<lparr>socket := (socket readyClient)
        \<lparr>ops := [OpSend (RequestLoadProfile ''night'') 4]\<rparr>\<rparr>) \<and>
   thisType (RequestLoadProfile ''night'') = REQUEST_LOAD_PROFILE \<and>
   deleteProfile ''night'' readyClient = loadProfile ''night'' readyClient"
  by (simp add: deleteProfile_def loadProfile_def sendMessage_eq afterSend_def example_defs)

subsection \<open>Operations on a disconnected client\<close>

text \<open>The session that leaves \<open>closedClient\<close>.\<close>

lemma closedClient_reachable:
  "Option.bind (connect exampleProtocol ''127.0.0.1'' 6742
                  (new_Client ''orgb::Client'' sessionNetwork))
     (\<lambda>(st, c1). Option.bind (requestDeviceList exampleProtocol c1)
        (\<lambda>(res, c2). Some (st, res, disconnect c2))) =
   Some (CS_Success, \<lparr>status = RS_Success, devices = []\<rparr>, True, closedClient)"
  by (simp add: connect_def disconnect_def sendMessage_eq socket_defs
      requestDeviceList_def requestDeviceList_loop.simps requestDeviceList_body_def
      deviceLoop.simps afterSend_def awaitMessage.simps Header_size_def
      ReplyProtocolVersion_def ReplyControllerCount_def example_defs sessionNetwork_def
      closedClient_def new_Client_def new_TcpSocket_def Let_def)

text \<open>
  Claim C6, as the claim states it, fails for \<open>checkForDeviceUpdates\<close>, which does not ask
  whether the socket is connected and whose status type has no \<^verbatim>\<open>NotConnected\<close>. On a
  new client, which is not connected, it returns \<^verbatim>\<open>OutOfDate\<close>. On \<open>closedClient\<close>, which
  is not connected and whose flag is clear, it calls \<^verbatim>\<open>setBlockingMode\<close> on the socket
  and returns \<^verbatim>\<open>OtherSystemError\<close>.
\<close>

theorem checkForDeviceUpdates_ignores_connection:
  "\<not> isConnected (new_Client ''orgb::Client'' quietSocket) \<and>
   checkForDeviceUpdates exampleProtocol (new_Client ''orgb::Client'' quietSocket) =
     (US_OutOfDate, new_Client ''orgb::Client'' quietSocket) \<and>
   \<not> isConnected closedClient \<and>
   fst (checkForDeviceUpdates exampleProtocol closedClient) = US_OtherSystemError \<and>
   newOps closedClient (snd (checkForDeviceUpdates exampleProtocol closedClient)) =
     [OpSetBlockingMode False]"
  by (simp add: probe_defs example_defs closedClient_def isConnected_def new_Client_def
      new_TcpSocket_def newOps_def)

text \<open>
  Claim C6, amended. On a client that is not connected, each of the four requests that
  await a reply and each of the ten mutating operations returns \<^verbatim>\<open>NotConnected\<close>, and
  \<open>setTimeout\<close> returns false; each leaves the client, and with it the socket and its
  trace, as it was. \<open>checkForDeviceUpdates\<close> returns \<^verbatim>\<open>OutOfDate\<close> and leaves the client
  as it was if the out-of-date flag is set, and performs an operation on the socket if
  the flag is clear.
\<close>

theorem disconnected_requests_short_circuit:
  assumes "\<not> connected (socket c)"
  shows "requestDeviceList P c = Some (\<lparr>status = RS_NotConnected, devices = []\<rparr>, c) \<and>
         requestDeviceCount P c = Some (\<lparr>status = RS_NotConnected, count = Some 0\<rparr>, c) \<and>
         requestDeviceInfo P deviceIdx c = Some (\<lparr>status = RS_NotConnected, device = None\<rparr>, c) \<and>
         requestProfileList P c = Some (\<lparr>status = RS_NotConnected, profiles = []\<rparr>, c) \<and>
         switchToCustomMode dev c = (RS_NotConnected, c) \<and>
         changeMode dev mode c = (RS_NotConnected, c) \<and>
         saveMode dev mode c = (RS_NotConnected, c) \<and>
         setDeviceColor capacity dev color c = (RS_NotConnected, c) \<and>
         setZoneColor capacity zone color c = (RS_NotConnected, c) \<and>
         setZoneSize zone newSize c = (RS_NotConnected, c) \<and>
         setLEDColor led color c = (RS_NotConnected, c) \<and>
         saveProfile profileName c = (RS_NotConnected, c) \<and>
         loadProfile profileName c = (RS_NotConnected, c) \<and>
         deleteProfile profileName c = (RS_NotConnected, c) \<and>
         setTimeout timeout c = (False, c) \<and>
         (if isDeviceListOutOfDate c then checkForDeviceUpdates P c = (US_OutOfDate, c)
          else newOps c (snd (checkForDeviceUpdates P c)) \<noteq> [])"
proof -
  have "newOps c (snd (checkForDeviceUpdates P c)) \<noteq> []" if "\<not> isDeviceListOutOfDate c"
    using that
    by (simp add: checkForDeviceUpdates_def checkForUpdateMessageArrival_def
        enableBlockingAndReturn_def disconnect_client sock_setBlockingMode_def sock_receive_def
        sock_disconnect_def newOps_def Let_def split: option.splits)
  with assms show ?thesis
    by (simp add: requestDeviceList_def requestDeviceCount_def requestDeviceInfo_def
        requestProfileList_def switchToCustomMode_def changeMode_def saveMode_def
        setDeviceColor_def setDeviceColor_impl_def setZoneColor_def setZoneColor_impl_def
        setZoneSize_def setLEDColor_def saveProfile_def
        loadProfile_def deleteProfile_def setTimeout_def checkForDeviceUpdates_def)
qed

theorem disconnected_requests_short_circuit_witness:
  "\<not> connected (socket closedClient) \<and>
   requestDeviceList exampleProtocol closedClient =
     Some (\<lparr>status = RS_NotConnected, devices = []\<rparr>, closedClient) \<and>
   setLEDColor \<lparr>led_parentIdx = 1, led_idx = 5\<rparr>
       \<lparr>color_r = 0xAA, color_g = 0xBB, color_b = 0xCC\<rparr> closedClient =
     (RS_NotConnected, closedClient) \<and>
   setTimeout 100 closedClient = (False, closedClient) \<and>
   newOps closedClient (snd (checkForDeviceUpdates exampleProtocol closedClient)) \<noteq> []"
  using disconnected_requests_short_circuit
    [where c = closedClient and P = exampleProtocol
       and led = "\<lparr>led_parentIdx = 1, led_idx = 5\<rparr>"
       and color = "\<lparr>color_r = 0xAA, color_g = 0xBB, color_b = 0xCC\<rparr>" and timeout = 100]
  by (simp add: example_defs closedClient_def)

subsection \<open>Requesting the device list\<close>

lemma recvFailure_not_Success: "recvFailure st \<noteq> RS_Success"
  by (simp add: recvFailure_def)

lemma awaitMessage_failure:
  assumes "awaitMessage P M c = Some y"
  shows "\<forall>st c'. y = (Inl st, c') \<longrightarrow> st \<noteq> RS_Success"
proof (rule awaitMessage.raw_induct
    [where Pa = "\<lambda>_ y. \<forall>st c'. y = (Inl st, c') \<longrightarrow> st \<noteq> RS_Success", OF _ assms])
  fix await :: "Protocol \<Rightarrow> 'a ReplyClass \<Rightarrow> Client \<Rightarrow> ('a RecvResult \<times> Client) option"
  fix P M c y
  assume IH: "\<And>P M c y. await P M c = Some y \<Longrightarrow>
      \<forall>st c'. y = (Inl st, c') \<longrightarrow> st \<noteq> RS_Success"
  assume step: "(let (headerStatus, headerBuffer, sk1) = sock_receive Header_size (socket c);
          c1 = c\<lparr>socket := sk1\<rparr>
      in if headerStatus \<noteq> SE_Success then Some (Inl (recvFailure headerStatus), c1)
         else case Header_deserialize P headerBuffer of
             None \<Rightarrow> Some (Inl RS_InvalidReply, c1)
           | Some header \<Rightarrow>
               if message_type header = DEVICE_LIST_UPDATED
               then await P M (c1\<lparr>isDeviceListOutOfDate := True\<rparr>)
               else if message_type header \<noteq> replyType M then Some (Inl RS_InvalidReply, c1)
               else
                 let (bodyStatus, bodyBuffer, sk2) =
                       sock_receive (unat (message_size header)) (socket c1);
                     c2 = c1\<lparr>socket := sk2\<rparr>
                 in if bodyStatus \<noteq> SE_Success then Some (Inl (recvFailure bodyStatus), c2)
                    else (case deserializeBody M (negotiatedProtocolVersion c2) bodyBuffer of
                            None \<Rightarrow> Some (Inl RS_InvalidReply, c2)
                          | Some message \<Rightarrow> Some (Inr message, c2))) = Some y"
  from step IH show "\<forall>st c'. y = (Inl st, c') \<longrightarrow> st \<noteq> RS_Success"
    by (auto simp add: Let_def sock_receive_def recvFailure_not_Success
        split: option.splits if_splits)
qed

lemma awaitMessage_Inl_not_Success:
  "awaitMessage P M c = Some (Inl st, c') \<Longrightarrow> st \<noteq> RS_Success"
  using awaitMessage_failure by blast

lemma deviceLoop_unfold:
  "deviceLoop P deviceCount deviceIdx devs c =
     (if deviceIdx < deviceCount then
        if shd (sendScript (socket c)) \<noteq> SE_Success
        then Some (Some RS_SendRequestFailed, devs,
                   afterSend (RequestControllerData deviceIdx (negotiatedProtocolVersion c)) c)
        else case awaitMessage P (ReplyControllerData P)
                    (afterSend (RequestControllerData deviceIdx (negotiatedProtocolVersion c)) c) of
            None \<Rightarrow> None
          | Some (Inl st, c2) \<Rightarrow> Some (Some st, devs, c2)
          | Some (Inr device_desc, c2) \<Rightarrow>
              deviceLoop P deviceCount (deviceIdx + 1) (devs @ [device_desc]) c2
      else Some (None, devs, c))"
  by (subst deviceLoop.simps) (simp add: sendMessage_eq)

lemma deviceLoop_early_not_Success:
  "deviceLoop P n i devs c = Some (Some st, devs', c') \<Longrightarrow> st \<noteq> RS_Success"
proof (induction P n i devs c rule: deviceLoop.induct)
  case (1 P deviceCount deviceIdx devs c)
  let ?c1 = "afterSend (RequestControllerData deviceIdx (negotiatedProtocolVersion c)) c"
  show ?case
  proof (cases "deviceIdx < deviceCount \<and> shd (sendScript (socket c)) = SE_Success")
    case False
    with "1.prems" show ?thesis
      by (subst (asm) deviceLoop_unfold) (auto split: if_splits)
  next
    case True
    then have sent: "sendMessage (RequestControllerData deviceIdx (negotiatedProtocolVersion c)) c =
        (True, ?c1)"
      by (simp add: sendMessage_eq)
    from True "1.prems" have run:
      "(case awaitMessage P (ReplyControllerData P) ?c1 of
            None \<Rightarrow> None
          | Some (Inl st, c2) \<Rightarrow> Some (Some st, devs, c2)
          | Some (Inr device_desc, c2) \<Rightarrow>
              deviceLoop P deviceCount (deviceIdx + 1) (devs @ [device_desc]) c2) =
       Some (Some st, devs', c')"
      by (subst (asm) deviceLoop_unfold) simp
    then obtain res c2 where await: "awaitMessage P (ReplyControllerData P) ?c1 = Some (res, c2)"
      by (cases "awaitMessage P (ReplyControllerData P) ?c1") auto
    show ?thesis
    proof (cases res)
      case (Inl e)
      with run await have "st = e" by simp
      with Inl await show ?thesis by (auto dest: awaitMessage_Inl_not_Success)
    next
      case (Inr d)
      with run await have
        "deviceLoop P deviceCount (deviceIdx + 1) (devs @ [d]) c2 = Some (Some st, devs', c')"
        by simp
      with True sent await Inr show ?thesis
        by (intro "1.IH" [of "(True, ?c1)" True ?c1 "(res, c2)" res c2 d]) simp_all
    qed
  qed
qed

lemma requestDeviceList_body_unfold:
  "requestDeviceList_body P c =
     (let c0 = c\<lparr>isDeviceListOutOfDate := False\<rparr> in
      if shd (sendScript (socket c)) \<noteq> SE_Success
      then Some (Some RS_SendRequestFailed, [], afterSend RequestControllerCount c0)
      else case awaitMessage P (ReplyControllerCount P) (afterSend RequestControllerCount c0) of
          None \<Rightarrow> None
        | Some (Inl st, c2) \<Rightarrow> Some (Some st, [], c2)
        | Some (Inr deviceCount, c2) \<Rightarrow> deviceLoop P deviceCount 0 [] c2)"
  by (simp add: requestDeviceList_body_def sendMessage_eq Let_def afterSend_def)

lemma requestDeviceList_body_early_not_Success:
  "requestDeviceList_body P c = Some (Some st, devs, c') \<Longrightarrow> st \<noteq> RS_Success"
  by (auto simp add: requestDeviceList_body_unfold Let_def
      split: if_splits option.splits sum.splits
      dest: awaitMessage_Inl_not_Success deviceLoop_early_not_Success)

lemma requestDeviceList_loop_final:
  assumes "requestDeviceList_loop P c = Some y"
  shows "status (fst y) = RS_Success \<longrightarrow>
         (\<exists>n c0. afterRestarts P n c = Some c0 \<and>
                 requestDeviceList_body P c0 = Some (None, devices (fst y), snd y) \<and>
                 \<not> isDeviceListOutOfDate (snd y))"
proof (rule requestDeviceList_loop.raw_induct
    [where Pa = "\<lambda>x y. status (fst y) = RS_Success \<longrightarrow>
         (\<exists>n c0. afterRestarts (fst x) n (snd x) = Some c0 \<and>
                 requestDeviceList_body (fst x) c0 = Some (None, devices (fst y), snd y) \<and>
                 \<not> isDeviceListOutOfDate (snd y))", simplified, OF _ assms])
  fix loop :: "Protocol \<Rightarrow> Client \<Rightarrow> (DeviceListResult \<times> Client) option"
  fix P c y
  assume IH: "\<And>P c y. loop P c = Some y \<Longrightarrow>
      status (fst y) = RS_Success \<longrightarrow>
      (\<exists>n c0. afterRestarts P n c = Some c0 \<and>
              requestDeviceList_body P c0 = Some (None, devices (fst y), snd y) \<and>
              \<not> isDeviceListOutOfDate (snd y))"
  assume step: "(case requestDeviceList_body P c of
        None \<Rightarrow> None
      | Some (early, devs, c1) \<Rightarrow>
          (case early of
             Some st \<Rightarrow> Some (\<lparr>status = st, devices = devs\<rparr>, c1)
           | None \<Rightarrow>
               if isDeviceListOutOfDate c1 then loop P c1
               else Some (\<lparr>status = RS_Success, devices = devs\<rparr>, c1))) = Some y"
  show "status (fst y) = RS_Success \<longrightarrow>
      (\<exists>n c0. afterRestarts P n c = Some c0 \<and>
              requestDeviceList_body P c0 = Some (None, devices (fst y), snd y) \<and>
              \<not> isDeviceListOutOfDate (snd y))"
  proof
    assume ok: "status (fst y) = RS_Success"
    from step obtain early devs c1 where
      body: "requestDeviceList_body P c = Some (early, devs, c1)"
      by (cases "requestDeviceList_body P c") auto
    show "\<exists>n c0. afterRestarts P n c = Some c0 \<and>
              requestDeviceList_body P c0 = Some (None, devices (fst y), snd y) \<and>
              \<not> isDeviceListOutOfDate (snd y)"
    proof (cases early)
      case (Some st)
      with step body ok have "st = RS_Success" by auto
      with Some body show ?thesis
        by (auto dest: requestDeviceList_body_early_not_Success)
    next
      case None
      show ?thesis
      proof (cases "isDeviceListOutOfDate c1")
        case True
        with step body None have "loop P c1 = Some y" by simp
        from IH [OF this] ok obtain n c0 where
          found: "afterRestarts P n c1 = Some c0"
            "requestDeviceList_body P c0 = Some (None, devices (fst y), snd y)"
            "\<not> isDeviceListOutOfDate (snd y)"
          by blast
        from body None True found(1) have "afterRestarts P (Suc n) c = Some c0" by simp
        with found(2,3) show ?thesis by blast
      next
        case False
        with step body None have "y = (\<lparr>status = RS_Success, devices = devs\<rparr>, c1)"
          by simp
        with body None False have "afterRestarts P 0 c = Some c"
          "requestDeviceList_body P c = Some (None, devices (fst y), snd y)"
          "\<not> isDeviceListOutOfDate (snd y)"
          by simp_all
        then show ?thesis by blast
      qed
    qed
  qed
qed

text \<open>
  An exchange, as \<open>awaitMessage\<close> goes through it, and a sweep, as the loops of
  \<open>requestDeviceList\<close> go through it.
\<close>

lemma stake_snth: "stake (length xs) s = xs \<Longrightarrow> i < length xs \<Longrightarrow> s !! i = xs ! i"
  using stake_nth [of i "length xs" s] by simp

lemma stake_append_split:
  assumes "stake (length (xs @ ys)) s = xs @ ys"
  shows "stake (length xs) s = xs" and "stake (length ys) (sdrop (length xs) s) = ys"
proof -
  have "stake (length xs) s @ stake (length ys) (sdrop (length xs) s) = xs @ ys"
    using assms by (simp add: stake_add [symmetric] del: stake_add)
  then show "stake (length xs) s = xs" and "stake (length ys) (sdrop (length xs) s) = ys"
    by (simp_all del: stake_add)
qed

lemma exchange_await:
  assumes ans: "answers P M (negotiatedProtocolVersion c) x message"
    and script: "stake (length (exchangeEvents x)) (recvScript (socket c)) = exchangeEvents x"
  shows "awaitMessage P M c =
         Some (Inr message,
               afterBody (bodyLength P x)
                 (afterHeaders (Suc (length (pushed x))) (length (pushed x)) c))"
proof -
  let ?n = "length (pushed x)"
  let ?s = "recvScript (socket c)"
  have at: "\<And>i. i < length (exchangeEvents x) \<Longrightarrow> ?s !! i = exchangeEvents x ! i"
    using stake_snth [OF script] .
  have skipped: "\<forall>i<?n. isNotification P (?s !! i)"
  proof (intro allI impI)
    fix i assume i: "i < ?n"
    then have "?s !! i = pushed x ! i"
      using at [of i] by (simp add: exchangeEvents_def nth_append)
    moreover from ans i have "isNotification P (pushed x ! i)"
      by (simp add: answers_def list_all_length)
    ultimately show "isNotification P (?s !! i)" by simp
  qed
  have hdr: "?s !! ?n = (SE_Success, header_bytes x)"
    using at [of ?n] by (simp add: exchangeEvents_def nth_append)
  have bdy: "?s !! Suc ?n = (SE_Success, body_bytes x)"
    using at [of "Suc ?n"] by (simp add: exchangeEvents_def nth_append)
  from ans obtain header where
    parsed: "Header_deserialize P (header_bytes x) = Some header"
    and expected: "message_type header = replyType M"
    and other: "message_type header \<noteq> DEVICE_LIST_UPDATED"
    by (auto simp add: answers_def split: option.splits)
  from ans have decoded: "deserializeBody M (negotiatedProtocolVersion c) (body_bytes x) = Some message"
    by (simp add: answers_def)
  have len: "bodyLength P x = unat (message_size header)"
    by (simp add: bodyLength_def parsed)
  have "shd (recvScript (socket (afterHeaders (Suc ?n) ?n c))) = ?s !! Suc ?n"
    by (simp add: afterHeaders_def)
  with bdy have next_read:
    "shd (recvScript (socket (afterHeaders (Suc ?n) ?n c))) = (SE_Success, body_bytes x)"
    by simp
  show ?thesis
    by (simp add: awaitMessage_after_notifications [OF skipped hdr parsed other, of M]
        Let_def expected next_read decoded len)
qed

lemma afterExchange_recvScript:
  "recvScript (socket (afterExchange P request x c)) =
     sdrop (length (exchangeEvents x)) (recvScript (socket c))"
  by (simp add: afterExchange_def afterBody_def afterHeaders_def afterSend_def exchangeEvents_def)

lemma afterExchange_sendScript:
  "sendScript (socket (afterExchange P request x c)) = stl (sendScript (socket c))"
  by (simp add: afterExchange_def afterBody_def afterHeaders_def afterSend_def)

lemma afterExchange_version:
  "negotiatedProtocolVersion (afterExchange P request x c) = negotiatedProtocolVersion c"
  by (simp add: afterExchange_def afterBody_def afterHeaders_def afterSend_def)

lemma afterExchange_connected:
  "connected (socket (afterExchange P request x c)) = connected (socket c)"
  by (simp add: afterExchange_def afterBody_def afterHeaders_def afterSend_def)

lemma afterExchange_flag:
  "isDeviceListOutOfDate (afterExchange P request x c) =
     (isDeviceListOutOfDate c \<or> pushed x \<noteq> [])"
  by (simp add: afterExchange_def afterBody_def afterHeaders_def afterSend_def)

lemma exchange_step:
  assumes ans: "answers P M (negotiatedProtocolVersion c) x message"
    and script: "stake (length (exchangeEvents x)) (recvScript (socket c)) = exchangeEvents x"
  shows "awaitMessage P M (afterSend request c) = Some (Inr message, afterExchange P request x c)"
proof -
  have "negotiatedProtocolVersion (afterSend request c) = negotiatedProtocolVersion c"
    "recvScript (socket (afterSend request c)) = recvScript (socket c)"
    by (simp_all add: afterSend_def)
  with ans script show ?thesis
    using exchange_await [of P M "afterSend request c" x message]
    by (simp add: afterExchange_def)
qed

lemma unat_of_nat_small: "k < 2 ^ 32 \<Longrightarrow> unat (of_nat k :: uint32) = k"
  by (simp add: unsigned_of_nat take_bit_nat_eq_self)

lemma afterDevices_flag:
  "isDeviceListOutOfDate (afterDevices P idx xs c) =
     (isDeviceListOutOfDate c \<or> (\<exists>x \<in> set xs. pushed x \<noteq> []))"
  by (induction xs arbitrary: idx c) (auto simp add: afterExchange_flag)

lemma afterDevices_version:
  "negotiatedProtocolVersion (afterDevices P idx xs c) = negotiatedProtocolVersion c"
  by (induction xs arbitrary: idx c) (simp_all add: afterExchange_version)

lemma afterDevices_connected:
  "connected (socket (afterDevices P idx xs c)) = connected (socket c)"
  by (induction xs arbitrary: idx c) (simp_all add: afterExchange_connected)

lemma afterDevices_recvScript:
  "recvScript (socket (afterDevices P idx xs c)) =
     sdrop (length (concat (map exchangeEvents xs))) (recvScript (socket c))"
  by (induction xs arbitrary: idx c) (simp_all add: afterExchange_recvScript add.commute)

lemma afterDevices_sendScript:
  "sendScript (socket (afterDevices P idx xs c)) = sdrop (length xs) (sendScript (socket c))"
  by (induction xs arbitrary: idx c) (simp_all add: afterExchange_sendScript)

lemma deviceLoop_served:
  assumes "list_all2 (answers P (ReplyControllerData P) version) xs ds"
    and "negotiatedProtocolVersion c = version"
    and "stake (length (concat (map exchangeEvents xs))) (recvScript (socket c)) =
           concat (map exchangeEvents xs)"
    and "stake (length xs) (sendScript (socket c)) = replicate (length xs) SE_Success"
    and "k + length xs \<le> unat deviceCount"
  shows "deviceLoop P deviceCount (of_nat k) devs c =
         deviceLoop P deviceCount (of_nat (k + length xs)) (devs @ ds)
           (afterDevices P (of_nat k) xs c)"
  using assms
proof (induction xs ds arbitrary: k devs c rule: list_all2_induct)
  case Nil
  show ?case by simp
next
  case (Cons x xs d ds)
  let ?request = "RequestControllerData (of_nat k) (negotiatedProtocolVersion c)"
  let ?c' = "afterExchange P ?request x c"
  have bound: "unat deviceCount < 2 ^ 32"
    using unsigned_less [of deviceCount, where ?'a = nat] by simp
  note version = Cons.prems(1)
  note recvs = Cons.prems(2)
  note sendsAll = Cons.prems(3)
  note room = Cons.prems(4)
  from bound room have k: "k < unat deviceCount" "k < 2 ^ 32" by simp_all
  then have less: "(of_nat k :: uint32) < deviceCount"
    by (simp add: word_less_nat_alt unat_of_nat_small)
  from sendsAll have sent: "shd (sendScript (socket c)) = SE_Success"
    and sends: "stake (length xs) (stl (sendScript (socket c))) = replicate (length xs) SE_Success"
    by simp_all
  from recvs have
    "stake (length (exchangeEvents x @ concat (map exchangeEvents xs))) (recvScript (socket c)) =
       exchangeEvents x @ concat (map exchangeEvents xs)"
    by simp
  from stake_append_split [OF this] have
    first: "stake (length (exchangeEvents x)) (recvScript (socket c)) = exchangeEvents x"
    and rest: "stake (length (concat (map exchangeEvents xs)))
                 (sdrop (length (exchangeEvents x)) (recvScript (socket c))) =
               concat (map exchangeEvents xs)"
    by simp_all
  have await: "awaitMessage P (ReplyControllerData P) (afterSend ?request c) =
      Some (Inr d, ?c')"
    using Cons.hyps(1) first by (simp add: exchange_step version)
  have step: "deviceLoop P deviceCount (of_nat k) devs c =
      deviceLoop P deviceCount (of_nat k + 1) (devs @ [d]) ?c'"
    by (subst deviceLoop_unfold) (simp add: less sent await)
  have "deviceLoop P deviceCount (of_nat (Suc k)) (devs @ [d]) ?c' =
      deviceLoop P deviceCount (of_nat (Suc k + length xs)) ((devs @ [d]) @ ds)
        (afterDevices P (of_nat (Suc k)) xs ?c')"
  proof (rule Cons.IH)
    show "negotiatedProtocolVersion ?c' = version"
      using version by (simp add: afterExchange_version)
    show "stake (length (concat (map exchangeEvents xs))) (recvScript (socket ?c')) =
        concat (map exchangeEvents xs)"
      using rest by (simp add: afterExchange_recvScript)
    show "stake (length xs) (sendScript (socket ?c')) = replicate (length xs) SE_Success"
      using sends by (simp add: afterExchange_sendScript)
    show "Suc k + length xs \<le> unat deviceCount"
      using room by simp
  qed
  with step show ?case by (simp add: add.commute)
qed


lemma afterSweep_flag: "isDeviceListOutOfDate (afterSweep P sw c) = notified sw"
  by (auto simp add: afterSweep_def notified_def afterDevices_flag afterExchange_flag)

lemma afterSweep_version:
  "negotiatedProtocolVersion (afterSweep P sw c) = negotiatedProtocolVersion c"
  by (simp add: afterSweep_def afterDevices_version afterExchange_version)

lemma afterSweep_connected: "connected (socket (afterSweep P sw c)) = connected (socket c)"
  by (simp add: afterSweep_def afterDevices_connected afterExchange_connected)

lemma afterSweep_sendScript:
  "sendScript (socket (afterSweep P sw c)) = sdrop (sweepRequests sw) (sendScript (socket c))"
  by (simp add: afterSweep_def afterDevices_sendScript afterExchange_sendScript sweepRequests_def)

lemma afterSweeps_version:
  "negotiatedProtocolVersion (afterSweeps P sws c) = negotiatedProtocolVersion c"
  by (induction sws arbitrary: c) (simp_all add: afterSweep_version)

lemma afterSweeps_connected: "connected (socket (afterSweeps P sws c)) = connected (socket c)"
  by (induction sws arbitrary: c) (simp_all add: afterSweep_connected)

lemma requestDeviceList_body_served:
  assumes "served P c sw deviceCount"
  shows "requestDeviceList_body P c =
         deviceLoop P deviceCount (of_nat (length (deviceExchanges sw))) (sweepDevices sw)
           (afterSweep P sw c)"
proof -
  let ?c0 = "c\<lparr>isDeviceListOutOfDate := False\<rparr>"
  let ?c1 = "afterExchange P RequestControllerCount (countExchange sw) ?c0"
  let ?xs = "deviceExchanges sw"
  from assms have
    "stake (length (exchangeEvents (countExchange sw) @ concat (map exchangeEvents ?xs)))
       (recvScript (socket c)) =
     exchangeEvents (countExchange sw) @ concat (map exchangeEvents ?xs)"
    by (simp add: served_def sweepEvents_def)
  from stake_append_split [OF this] have
    first: "stake (length (exchangeEvents (countExchange sw))) (recvScript (socket ?c0)) =
        exchangeEvents (countExchange sw)"
    and rest: "stake (length (concat (map exchangeEvents ?xs)))
                 (sdrop (length (exchangeEvents (countExchange sw))) (recvScript (socket c))) =
               concat (map exchangeEvents ?xs)"
    by simp_all
  from assms have sent: "shd (sendScript (socket c)) = SE_Success"
    and sends: "stake (length ?xs) (stl (sendScript (socket c))) =
        replicate (length ?xs) SE_Success"
    by (simp_all add: served_def sweepRequests_def)
  from assms have counted:
    "answers P (ReplyControllerCount P) (negotiatedProtocolVersion ?c0) (countExchange sw)
       deviceCount"
    by (simp add: served_def)
  have await: "awaitMessage P (ReplyControllerCount P) (afterSend RequestControllerCount ?c0) =
      Some (Inr deviceCount, ?c1)"
    using counted first by (rule exchange_step)
  have body: "requestDeviceList_body P c = deviceLoop P deviceCount 0 [] ?c1"
    by (simp add: requestDeviceList_body_unfold Let_def sent await)
  have "deviceLoop P deviceCount (of_nat 0) [] ?c1 =
      deviceLoop P deviceCount (of_nat (0 + length ?xs)) ([] @ sweepDevices sw)
        (afterDevices P (of_nat 0) ?xs ?c1)"
  proof (rule deviceLoop_served)
    show "list_all2 (answers P (ReplyControllerData P) (negotiatedProtocolVersion c)) ?xs
        (sweepDevices sw)"
      using assms by (simp add: served_def)
    show "negotiatedProtocolVersion ?c1 = negotiatedProtocolVersion c"
      by (simp add: afterExchange_version)
    show "stake (length (concat (map exchangeEvents ?xs))) (recvScript (socket ?c1)) =
        concat (map exchangeEvents ?xs)"
      using rest by (simp add: afterExchange_recvScript)
    show "stake (length ?xs) (sendScript (socket ?c1)) = replicate (length ?xs) SE_Success"
      using sends by (simp add: afterExchange_sendScript)
    show "0 + length ?xs \<le> unat deviceCount"
      using assms by (simp add: served_def)
  qed
  with body show ?thesis by (simp add: afterSweep_def)
qed

lemma requestDeviceList_body_complete:
  assumes "complete P c sw"
  shows "requestDeviceList_body P c = Some (None, sweepDevices sw, afterSweep P sw c)"
proof -
  from assms have "served P c sw (of_nat (length (deviceExchanges sw)))"
    by (simp add: complete_def)
  from requestDeviceList_body_served [OF this] show ?thesis
    by (simp add: deviceLoop_unfold [of P "of_nat (length (deviceExchanges sw))"])
qed

lemma requestDeviceList_loop_restarts:
  "restarts P c sws \<Longrightarrow>
   requestDeviceList_loop P c = requestDeviceList_loop P (afterSweeps P sws c)"
proof (induction sws arbitrary: c)
  case Nil
  show ?case by simp
next
  case (Cons sw sws)
  from Cons.prems have body:
    "requestDeviceList_body P c = Some (None, sweepDevices sw, afterSweep P sw c)"
    by (simp add: requestDeviceList_body_complete)
  from Cons.prems have "isDeviceListOutOfDate (afterSweep P sw c)"
    by (simp add: afterSweep_flag)
  with body have "requestDeviceList_loop P c = requestDeviceList_loop P (afterSweep P sw c)"
    by (subst requestDeviceList_loop.simps) simp
  also from Cons.prems have "\<dots> = requestDeviceList_loop P (afterSweeps P sws (afterSweep P sw c))"
    by (intro Cons.IH) simp
  finally show ?case by simp
qed

lemma requestDeviceList_loop_success:
  assumes "complete P c sw" and "\<not> notified sw"
  shows "requestDeviceList_loop P c =
         Some (\<lparr>status = RS_Success, devices = sweepDevices sw\<rparr>, afterSweep P sw c)"
  using assms
  by (subst requestDeviceList_loop.simps)
     (simp add: requestDeviceList_body_complete afterSweep_flag)

lemma requestDeviceList_loop_count_send_fails:
  assumes "shd (sendScript (socket c)) \<noteq> SE_Success"
  shows "requestDeviceList_loop P c =
         Some (\<lparr>status = RS_SendRequestFailed, devices = []\<rparr>,
               afterSend RequestControllerCount (c\<lparr>isDeviceListOutOfDate := False\<rparr>))"
  using assms
  by (subst requestDeviceList_loop.simps) (simp add: requestDeviceList_body_unfold Let_def)

lemma requestDeviceList_loop_count_receive_fails:
  assumes "shd (sendScript (socket c)) = SE_Success"
    and "awaitMessage P (ReplyControllerCount P)
           (afterSend RequestControllerCount (c\<lparr>isDeviceListOutOfDate := False\<rparr>)) =
         Some (Inl st, c')"
  shows "requestDeviceList_loop P c = Some (\<lparr>status = st, devices = []\<rparr>, c')"
  using assms
  by (subst requestDeviceList_loop.simps) (simp add: requestDeviceList_body_unfold Let_def)

lemma requestDeviceList_body_interrupted:
  assumes "served P c sw deviceCount" and "length (deviceExchanges sw) < unat deviceCount"
  shows "requestDeviceList_body P c =
         (let deviceIdx = of_nat (length (deviceExchanges sw));
              request = RequestControllerData deviceIdx (negotiatedProtocolVersion c);
              c1 = afterSweep P sw c
          in if sendScript (socket c) !! sweepRequests sw \<noteq> SE_Success
             then Some (Some RS_SendRequestFailed, sweepDevices sw, afterSend request c1)
             else case awaitMessage P (ReplyControllerData P) (afterSend request c1) of
                 None \<Rightarrow> None
               | Some (Inl st, c2) \<Rightarrow> Some (Some st, sweepDevices sw, c2)
               | Some (Inr device_desc, c2) \<Rightarrow>
                   deviceLoop P deviceCount (deviceIdx + 1) (sweepDevices sw @ [device_desc]) c2)"
proof -
  have "unat deviceCount < 2 ^ 32"
    using unsigned_less [of deviceCount, where ?'a = nat] by simp
  with assms(2) have "(of_nat (length (deviceExchanges sw)) :: uint32) < deviceCount"
    by (simp add: word_less_nat_alt unat_of_nat_small)
  then show ?thesis
    unfolding requestDeviceList_body_served [OF assms(1)]
    by (subst deviceLoop_unfold)
       (simp add: afterSweep_version afterSweep_sendScript Let_def)
qed

lemma requestDeviceList_loop_device_send_fails:
  assumes "served P c sw deviceCount" and "length (deviceExchanges sw) < unat deviceCount"
    and "sendScript (socket c) !! sweepRequests sw \<noteq> SE_Success"
  shows "requestDeviceList_loop P c =
         Some (\<lparr>status = RS_SendRequestFailed, devices = sweepDevices sw\<rparr>,
               afterSend (RequestControllerData (of_nat (length (deviceExchanges sw)))
                            (negotiatedProtocolVersion c))
                 (afterSweep P sw c))"
  using assms(3)
  by (subst requestDeviceList_loop.simps)
     (simp add: requestDeviceList_body_interrupted [OF assms(1,2)] Let_def)

lemma requestDeviceList_loop_device_receive_fails:
  assumes "served P c sw deviceCount" and "length (deviceExchanges sw) < unat deviceCount"
    and "sendScript (socket c) !! sweepRequests sw = SE_Success"
    and "awaitMessage P (ReplyControllerData P)
           (afterSend (RequestControllerData (of_nat (length (deviceExchanges sw)))
                         (negotiatedProtocolVersion c))
              (afterSweep P sw c)) =
         Some (Inl st, c')"
  shows "requestDeviceList_loop P c = Some (\<lparr>status = st, devices = sweepDevices sw\<rparr>, c')"
  using assms(3,4)
  by (subst requestDeviceList_loop.simps)
     (simp add: requestDeviceList_body_interrupted [OF assms(1,2)] Let_def)

lemmas run_defs =
  requestDeviceList_def requestDeviceList_body_unfold deviceLoop_unfold
  afterSend_def sock_receive_def Header_size_def recvFailure_def
  ReplyControllerCount_def ReplyControllerData_def

lemmas restart_example_defs =
  restartClient_def interruptedClient_def restartClient_pass1_def restartClient_pass2_def
  interruptedClient_pass1_def deviceNo_def

lemmas sweep_defs =
  complete_def served_def notified_def sweepEvents_def sweepRequests_def exchangeEvents_def
  answers_def bodyLength_def isNotification_def replyWith_def
  ReplyControllerCount_def ReplyControllerData_def

lemmas after_defs =
  afterSweep_def afterExchange_def afterSend_def afterHeaders_def afterBody_def
  bodyLength_def replyWith_def Header_size_def

text \<open>
  Claim C2, as the claim states it, fails: the flag is looked at only when a pass has
  run to its end. Here a notification arrives before the count, so the flag is set
  during the pass; the first device is received and the second is not. The operation
  returns \<^verbatim>\<open>NoReply\<close> with the device received so far, the flag set, and one count
  request sent: nothing is discarded and nothing is started again.
\<close>

theorem notification_then_failure:
  "connected (socket interruptedClient) \<and>
   \<not> isDeviceListOutOfDate interruptedClient \<and>
   requestDeviceList exampleProtocol interruptedClient =
     Some (\<lparr>status = RS_NoReply, devices = [deviceNo 10]\<rparr>, interruptedClient_pass1) \<and>
   isDeviceListOutOfDate interruptedClient_pass1 \<and>
   count_list (ops (socket interruptedClient_pass1)) (OpSend RequestControllerCount 4) = 1"
  by (simp add: run_defs requestDeviceList_loop.simps awaitMessage.simps example_defs
      restart_example_defs Let_def)

text \<open>
  Claim C2, amended. Let the client be connected, and let the network serve it the sweeps
  \<open>sws\<close> one after the other, each of them complete (its count request and all its device
  requests are sent and answered) and each with a notification somewhere in it, so that
  the flag becomes set during each of them. Then

  \<^item> \<open>requestDeviceList\<close> gives what it gives on the client that these sweeps leave
    behind: their devices are discarded, and it starts again with a count request;

  \<^item> if the sweep that follows is complete and no notification arrives in it, the
    operation returns \<^verbatim>\<open>Success\<close> with exactly the devices of that sweep, and the flag is
    clear, whatever it was before the call: every sweep starts by clearing it;

  \<^item> if the count request of the sweep that follows cannot be sent, the operation
    returns \<^verbatim>\<open>SendRequestFailed\<close> with no devices and the flag clear; if the wait for the
    count fails, it returns the status of the wait with no devices;

  \<^item> if the sweep that follows gets as far as \<open>part\<close> (the count and the first devices
    are answered, with or without notifications) and the next device request cannot be
    sent, or the wait for its reply fails, the operation returns that failure with the
    devices of \<open>part\<close>: nothing is discarded and nothing is started again, whether the
    flag has become set or not;

  \<^item> whenever the operation returns \<^verbatim>\<open>Success\<close>, its devices are those of one pass, the
    last of a sequence of passes of which every earlier one ended with the flag set, and
    that pass ended in the client that is returned, with the flag clear.
\<close>

theorem requestDeviceList_restarts:
  assumes on: "connected (socket c)" and earlier: "restarts P c sws"
  shows "requestDeviceList P c = requestDeviceList P (afterSweeps P sws c) \<and>
         (complete P (afterSweeps P sws c) sw \<and> \<not> notified sw \<longrightarrow>
            requestDeviceList P c =
              Some (\<lparr>status = RS_Success, devices = sweepDevices sw\<rparr>,
                    afterSweep P sw (afterSweeps P sws c)) \<and>
            \<not> isDeviceListOutOfDate (afterSweep P sw (afterSweeps P sws c))) \<and>
         (shd (sendScript (socket (afterSweeps P sws c))) \<noteq> SE_Success \<longrightarrow>
            requestDeviceList P c =
              Some (\<lparr>status = RS_SendRequestFailed, devices = []\<rparr>,
                    afterSend RequestControllerCount
                      ((afterSweeps P sws c)\<lparr>isDeviceListOutOfDate := False\<rparr>))) \<and>
         (shd (sendScript (socket (afterSweeps P sws c))) = SE_Success \<and>
          awaitMessage P (ReplyControllerCount P)
            (afterSend RequestControllerCount
               ((afterSweeps P sws c)\<lparr>isDeviceListOutOfDate := False\<rparr>)) =
            Some (Inl st, c') \<longrightarrow>
            requestDeviceList P c = Some (\<lparr>status = st, devices = []\<rparr>, c')) \<and>
         (served P (afterSweeps P sws c) part deviceCount \<and>
          length (deviceExchanges part) < unat deviceCount \<and>
          sendScript (socket (afterSweeps P sws c)) !! sweepRequests part \<noteq> SE_Success \<longrightarrow>
            requestDeviceList P c =
              Some (\<lparr>status = RS_SendRequestFailed, devices = sweepDevices part\<rparr>,
                    afterSend (RequestControllerData (of_nat (length (deviceExchanges part)))
                                 (negotiatedProtocolVersion c))
                      (afterSweep P part (afterSweeps P sws c)))) \<and>
         (served P (afterSweeps P sws c) part deviceCount \<and>
          length (deviceExchanges part) < unat deviceCount \<and>
          sendScript (socket (afterSweeps P sws c)) !! sweepRequests part = SE_Success \<and>
          awaitMessage P (ReplyControllerData P)
            (afterSend (RequestControllerData (of_nat (length (deviceExchanges part)))
                          (negotiatedProtocolVersion c))
               (afterSweep P part (afterSweeps P sws c))) =
            Some (Inl st, c') \<longrightarrow>
            requestDeviceList P c = Some (\<lparr>status = st, devices = sweepDevices part\<rparr>, c')) \<and>
         (requestDeviceList P c = Some (res, c') \<and> status res = RS_Success \<longrightarrow>
            (\<exists>n c0. afterRestarts P n c = Some c0 \<and>
                    requestDeviceList_body P c0 = Some (None, devices res, c') \<and>
                    \<not> isDeviceListOutOfDate c'))"
proof -
  let ?c = "afterSweeps P sws c"
  have on': "connected (socket ?c)"
    using on by (simp add: afterSweeps_connected)
  have ver: "negotiatedProtocolVersion ?c = negotiatedProtocolVersion c"
    by (rule afterSweeps_version)
  have start: "requestDeviceList P c = requestDeviceList_loop P ?c"
    using on requestDeviceList_loop_restarts [OF earlier] by (simp add: requestDeviceList_def)
  have again: "requestDeviceList P c = requestDeviceList P ?c"
    using start on' by (simp add: requestDeviceList_def)
  have success: "complete P ?c sw \<and> \<not> notified sw \<longrightarrow>
      requestDeviceList P c =
        Some (\<lparr>status = RS_Success, devices = sweepDevices sw\<rparr>, afterSweep P sw ?c) \<and>
      \<not> isDeviceListOutOfDate (afterSweep P sw ?c)"
    by (simp add: start requestDeviceList_loop_success afterSweep_flag)
  have count_send: "shd (sendScript (socket ?c)) \<noteq> SE_Success \<longrightarrow>
      requestDeviceList P c =
        Some (\<lparr>status = RS_SendRequestFailed, devices = []\<rparr>,
              afterSend RequestControllerCount (?c\<lparr>isDeviceListOutOfDate := False\<rparr>))"
    by (simp add: start requestDeviceList_loop_count_send_fails)
  have count_receive: "shd (sendScript (socket ?c)) = SE_Success \<and>
      awaitMessage P (ReplyControllerCount P)
        (afterSend RequestControllerCount (?c\<lparr>isDeviceListOutOfDate := False\<rparr>)) =
        Some (Inl st, c') \<longrightarrow>
      requestDeviceList P c = Some (\<lparr>status = st, devices = []\<rparr>, c')"
    by (simp add: start requestDeviceList_loop_count_receive_fails)
  have device_send: "served P ?c part deviceCount \<and>
      length (deviceExchanges part) < unat deviceCount \<and>
      sendScript (socket ?c) !! sweepRequests part \<noteq> SE_Success \<longrightarrow>
      requestDeviceList P c =
        Some (\<lparr>status = RS_SendRequestFailed, devices = sweepDevices part\<rparr>,
              afterSend (RequestControllerData (of_nat (length (deviceExchanges part)))
                           (negotiatedProtocolVersion c))
                (afterSweep P part ?c))"
    using requestDeviceList_loop_device_send_fails [of P ?c part deviceCount]
    by (simp add: start ver)
  have device_receive: "served P ?c part deviceCount \<and>
      length (deviceExchanges part) < unat deviceCount \<and>
      sendScript (socket ?c) !! sweepRequests part = SE_Success \<and>
      awaitMessage P (ReplyControllerData P)
        (afterSend (RequestControllerData (of_nat (length (deviceExchanges part)))
                      (negotiatedProtocolVersion c))
           (afterSweep P part ?c)) =
        Some (Inl st, c') \<longrightarrow>
      requestDeviceList P c = Some (\<lparr>status = st, devices = sweepDevices part\<rparr>, c')"
    using requestDeviceList_loop_device_receive_fails [of P ?c part deviceCount st c']
    by (simp add: start ver)
  have final: "requestDeviceList P c = Some (res, c') \<and> status res = RS_Success \<longrightarrow>
      (\<exists>n c0. afterRestarts P n c = Some c0 \<and>
              requestDeviceList_body P c0 = Some (None, devices res, c') \<and>
              \<not> isDeviceListOutOfDate c')"
    using on requestDeviceList_loop_final [of P c "(res, c')"]
    by (simp add: requestDeviceList_def)
  from again success count_send count_receive device_send device_receive final
  show ?thesis by (intro conjI)
qed


theorem requestDeviceList_restarts_witness:
  "connected (socket restartClient) \<and>
   restarts exampleProtocol restartClient [restartSweep1] \<and>
   afterSweeps exampleProtocol [restartSweep1] restartClient = restartClient_pass1 \<and>
   isDeviceListOutOfDate restartClient_pass1 \<and>
   complete exampleProtocol restartClient_pass1 restartSweep2 \<and>
   \<not> notified restartSweep2 \<and>
   requestDeviceList exampleProtocol restartClient =
     requestDeviceList exampleProtocol restartClient_pass1 \<and>
   requestDeviceList exampleProtocol restartClient =
     Some (\<lparr>status = RS_Success, devices = [deviceNo 20, deviceNo 21]\<rparr>, restartClient_pass2) \<and>
   \<not> isDeviceListOutOfDate restartClient_pass2 \<and>
   count_list (ops (socket restartClient_pass2)) (OpSend RequestControllerCount 4) = 2 \<and>
   (\<exists>n c0. afterRestarts exampleProtocol n restartClient = Some c0 \<and>
       requestDeviceList_body exampleProtocol c0 =
         Some (None, [deviceNo 20, deviceNo 21], restartClient_pass2)) \<and>
   isDeviceListOutOfDate sendFailsClient \<and>
   requestDeviceList exampleProtocol sendFailsClient =
     Some (\<lparr>status = RS_SendRequestFailed, devices = []\<rparr>, sendFailsClient_pass1) \<and>
   \<not> isDeviceListOutOfDate sendFailsClient_pass1 \<and>
   requestDeviceList exampleProtocol readyClient =
     Some (\<lparr>status = RS_NoReply, devices = []\<rparr>, unansweredClient_pass1) \<and>
   served exampleProtocol unsentClient interruptedSweep 2 \<and>
   notified interruptedSweep \<and>
   requestDeviceList exampleProtocol unsentClient =
     Some (\<lparr>status = RS_SendRequestFailed, devices = [deviceNo 10]\<rparr>, unsentClient_pass1) \<and>
   served exampleProtocol interruptedClient interruptedSweep 2 \<and>
   requestDeviceList exampleProtocol interruptedClient =
     Some (\<lparr>status = RS_NoReply, devices = [deviceNo 10]\<rparr>, interruptedClient_pass1)"
proof -
  let ?P = exampleProtocol
  note example = example_defs restart_example_defs
  have on: "connected (socket restartClient)" "connected (socket interruptedClient)"
    "connected (socket sendFailsClient)" "connected (socket readyClient)"
    "connected (socket unsentClient)"
    by (simp_all add: example sendFailsClient_def unsentClient_def)
  have none: "restarts ?P interruptedClient []" "restarts ?P sendFailsClient []"
    "restarts ?P readyClient []" "restarts ?P unsentClient []"
    by simp_all
  have len1: "length (deviceExchanges restartSweep1) = 3"
    by (simp add: restartSweep1_def)
  have served1: "served ?P restartClient restartSweep1 3"
    by (simp add: sweep_defs restartSweep1_def example)
  have notified1: "notified restartSweep1"
    by (simp add: notified_def restartSweep1_def replyWith_def)
  from served1 notified1 have earlier: "restarts ?P restartClient [restartSweep1]"
    by (simp add: complete_def len1)
  have after1: "afterSweeps ?P [restartSweep1] restartClient = restartClient_pass1"
    by (simp add: after_defs restartSweep1_def example)
  have flag1: "isDeviceListOutOfDate restartClient_pass1"
    by (simp add: example)
  have len2: "length (deviceExchanges restartSweep2) = 2"
    by (simp add: restartSweep2_def)
  have served2: "served ?P restartClient_pass1 restartSweep2 2"
    by (simp add: sweep_defs restartSweep2_def example)
  then have complete2: "complete ?P restartClient_pass1 restartSweep2"
    by (simp add: complete_def len2)
  have quiet2: "\<not> notified restartSweep2"
    by (simp add: notified_def restartSweep2_def replyWith_def)
  have after2: "afterSweep ?P restartSweep2 restartClient_pass1 = restartClient_pass2"
    by (simp add: after_defs restartSweep2_def example)
  have devices2: "sweepDevices restartSweep2 = [deviceNo 20, deviceNo 21]"
    by (simp add: restartSweep2_def)
  note restart = requestDeviceList_restarts [OF on(1) earlier, unfolded after1,
      where sw = restartSweep2 and res = "\<lparr>status = RS_Success, devices = [deviceNo 20, deviceNo 21]\<rparr>"
        and c' = restartClient_pass2]
  from restart have again: "requestDeviceList ?P restartClient =
      requestDeviceList ?P restartClient_pass1"
    by (rule conjunct1)
  from restart [THEN conjunct2, THEN conjunct1] complete2 quiet2
  have finished: "requestDeviceList ?P restartClient =
      Some (\<lparr>status = RS_Success, devices = [deviceNo 20, deviceNo 21]\<rparr>, restartClient_pass2)"
    and flag2: "\<not> isDeviceListOutOfDate restartClient_pass2"
    by (simp_all add: after2 devices2)
  have counts: "count_list (ops (socket restartClient_pass2)) (OpSend RequestControllerCount 4) = 2"
    by (simp add: example)
  from restart [THEN conjunct2, THEN conjunct2, THEN conjunct2, THEN conjunct2, THEN conjunct2,
      THEN conjunct2] finished
  have last: "\<exists>n c0. afterRestarts ?P n restartClient = Some c0 \<and>
       requestDeviceList_body ?P c0 =
         Some (None, [deviceNo 20, deviceNo 21], restartClient_pass2)"
    by auto
  have flag3: "isDeviceListOutOfDate sendFailsClient"
    by (simp add: sendFailsClient_def)
  have unsent3: "shd (sendScript (socket (afterSweeps ?P [] sendFailsClient))) \<noteq> SE_Success"
    by (simp add: sendFailsClient_def example)
  have after3: "afterSend RequestControllerCount
      (sendFailsClient\<lparr>isDeviceListOutOfDate := False\<rparr>) = sendFailsClient_pass1"
    by (simp add: afterSend_def sendFailsClient_def sendFailsClient_pass1_def example)
  from requestDeviceList_restarts [OF on(3) none(2), THEN conjunct2, THEN conjunct2,
      THEN conjunct1] unsent3
  have count_unsent: "requestDeviceList ?P sendFailsClient =
      Some (\<lparr>status = RS_SendRequestFailed, devices = []\<rparr>, sendFailsClient_pass1)"
    by (simp add: after3)
  have flag3': "\<not> isDeviceListOutOfDate sendFailsClient_pass1"
    by (simp add: sendFailsClient_pass1_def example)
  have sent4: "shd (sendScript (socket (afterSweeps ?P [] readyClient))) = SE_Success"
    by (simp add: example)
  have await4: "awaitMessage ?P (ReplyControllerCount ?P)
      (afterSend RequestControllerCount
         ((afterSweeps ?P [] readyClient)\<lparr>isDeviceListOutOfDate := False\<rparr>)) =
      Some (Inl RS_NoReply, unansweredClient_pass1)"
    by (simp add: awaitMessage.simps afterSend_def sock_receive_def recvFailure_def
        Header_size_def unansweredClient_pass1_def example)
  from requestDeviceList_restarts [OF on(4) none(3), THEN conjunct2, THEN conjunct2,
      THEN conjunct2, THEN conjunct1, of RS_NoReply unansweredClient_pass1] sent4 await4
  have count_unanswered: "requestDeviceList ?P readyClient =
      Some (\<lparr>status = RS_NoReply, devices = []\<rparr>, unansweredClient_pass1)"
    by simp
  have served5: "served ?P unsentClient interruptedSweep 2"
    by (simp add: sweep_defs interruptedSweep_def unsentClient_def example)
  have notified5: "notified interruptedSweep"
    by (simp add: notified_def interruptedSweep_def replyWith_def)
  have len5: "length (deviceExchanges interruptedSweep) = 1"
    "sweepDevices interruptedSweep = [deviceNo 10]"
    by (simp_all add: interruptedSweep_def)
  have unsent5: "sendScript (socket unsentClient) !! sweepRequests interruptedSweep \<noteq> SE_Success"
    by (simp add: sweepRequests_def interruptedSweep_def unsentClient_def example)
  have after5: "afterSend (RequestControllerData 1 (negotiatedProtocolVersion unsentClient))
      (afterSweep ?P interruptedSweep unsentClient) = unsentClient_pass1"
    by (simp add: after_defs interruptedSweep_def unsentClient_def unsentClient_pass1_def example)
  from requestDeviceList_restarts [OF on(5) none(4), THEN conjunct2, THEN conjunct2,
      THEN conjunct2, THEN conjunct2, THEN conjunct1, of interruptedSweep 2] served5 unsent5
  have device_unsent: "requestDeviceList ?P unsentClient =
      Some (\<lparr>status = RS_SendRequestFailed, devices = [deviceNo 10]\<rparr>, unsentClient_pass1)"
    by (simp add: len5 after5)
  have served6: "served ?P interruptedClient interruptedSweep 2"
    by (simp add: sweep_defs interruptedSweep_def example)
  have sent6: "sendScript (socket interruptedClient) !! sweepRequests interruptedSweep = SE_Success"
    by (simp add: sweepRequests_def interruptedSweep_def example)
  have await6: "awaitMessage ?P (ReplyControllerData ?P)
      (afterSend (RequestControllerData 1 (negotiatedProtocolVersion interruptedClient))
         (afterSweep ?P interruptedSweep interruptedClient)) =
      Some (Inl RS_NoReply, interruptedClient_pass1)"
    by (simp add: awaitMessage.simps after_defs sock_receive_def recvFailure_def
        interruptedSweep_def example)
  from requestDeviceList_restarts [OF on(2) none(1), THEN conjunct2, THEN conjunct2,
      THEN conjunct2, THEN conjunct2, THEN conjunct2, THEN conjunct1,
      of interruptedSweep 2 RS_NoReply interruptedClient_pass1] served6 sent6 await6
  have device_unanswered: "requestDeviceList ?P interruptedClient =
      Some (\<lparr>status = RS_NoReply, devices = [deviceNo 10]\<rparr>, interruptedClient_pass1)"
    by (simp add: len5)
  from on(1) earlier after1 flag1 complete2 quiet2 again finished flag2 counts last
    flag3 count_unsent flag3' count_unanswered served5 notified5 device_unsent
    served6 device_unanswered
  show ?thesis by (intro conjI)
qed


end
